theory Spec2Isabelle
  imports Complex_Main "HOL-Library.Word"
begin

text \<open>
  A model of \<open>index.js\<close>, the backend of SkillScope AI: the helper \<open>extractJson\<close>, the
  analyzer \<open>analyzeResumeText\<close>, the handlers of POST /api/analyze-text and
  POST /api/analyze-file, and the startup configuration.

  What lies outside the file is a parameter or is fixed as follows. The generative model
  and the two document decoders are functions that return a text or throw. The
  middleware has run before a handler does: the JSON body is an object whose
  \<open>resumeText\<close> is absent or any JSON value, and \<open>req.file\<close> is absent or one upload.
  \<open>JSON.parse\<close> and \<open>String.prototype.match\<close> are modelled from the language standard;
  the conversion of a value that is not a string to a string is a parameter. At startup
  the calls into the libraries are parameters that return or throw.
  A response is the status and the object given to \<open>res.json\<close>, before serialisation.
  Log lines are left out.
\<close>

section \<open>JavaScript strings and values\<close>

text \<open>
  A JavaScript string is a sequence of UTF-16 code units. The regular expression of
  \<open>extractJson\<close> has no \<open>u\<close> flag and \<open>JSON.parse\<close> reads code units, so the model
  works on code units throughout. \<open>ascii\<close> embeds an ASCII literal of the source.
\<close>

type_synonym code_unit = "16 word"
type_synonym jsstring = "code_unit list"

definition cu :: "char \<Rightarrow> code_unit" where
  "cu ch = of_nat (of_char ch)"

definition ascii :: "string \<Rightarrow> jsstring" where
  "ascii s = map cu s"

text \<open>
  The values \<open>JSON.parse\<close> can return. An object is the list of its own properties in
  creation order. A number carries the exact rational value of its literal, except that
  a literal which rounds to zero as an IEEE double is the number 0 (see
  \<open>numberValue\<close>); other rounding, \<open>-0\<close> and \<open>Infinity\<close> are not modelled.
\<close>

datatype json =
    JNull
  | JBool bool
  | JNum rat
  | JStr jsstring
  | JArr "json list"
  | JObj "(jsstring \<times> json) list"

text \<open>JavaScript's ToBoolean on these values: what \<open>!x\<close> and \<open>a && b\<close> test.\<close>

fun truthy :: "json \<Rightarrow> bool" where
  "truthy JNull = False"
| "truthy (JBool b) = b"
| "truthy (JNum q) = (q \<noteq> 0)"
| "truthy (JStr s) = (s \<noteq> [])"
| "truthy (JArr xs) = True"
| "truthy (JObj ms) = True"

text \<open>
  Completion of a JavaScript call: it returns a value or throws. For an awaited promise,
  \<open>Throw\<close> is rejection.
\<close>

datatype js_error = SyntaxError | TypeError | CollaboratorError

datatype 'a completion = Return 'a | Throw js_error

text \<open>\<open>try { body } catch (error) { handler }\<close>\<close>

definition tryCatch :: "'a completion \<Rightarrow> (js_error \<Rightarrow> 'a completion) \<Rightarrow> 'a completion" where
  "tryCatch body handler = (case body of Return v \<Rightarrow> Return v | Throw e \<Rightarrow> handler e)"

section \<open>JSON.parse\<close>

text \<open>
  \<open>JSON.parse\<close> is a built-in of the language: it accepts exactly the texts of the JSON
  grammar (ECMA-404) and throws a SyntaxError on every other string. It is modelled by a
  lexer that reads one code unit at a time and a parser that reads one token at a time
  and keeps the open arrays and objects on a stack.
\<close>

datatype token =
    TLBrace | TRBrace | TLBracket | TRBracket | TColon | TComma
  | TScalar json

record numlit =
  neg :: bool
  mant :: nat
  fracLen :: nat
  expNeg :: bool
  expo :: nat

definition emptyNum :: numlit where
  "emptyNum = \<lparr>neg = False, mant = 0, fracLen = 0, expNeg = False, expo = 0\<rparr>"

text \<open>
  The value of the literal \<open>[-] mant * 10 ^ (\<plusminus>expo - fracLen)\<close>. A double is zero exactly
  when the magnitude is at most \<open>2 ^ -1075\<close>, half the least subnormal (ties go to even).
\<close>

definition magnitude :: "numlit \<Rightarrow> rat" where
  "magnitude n =
     (if expNeg n then of_nat (mant n) / 10 ^ (fracLen n + expo n)
      else of_nat (mant n) * 10 ^ expo n / 10 ^ fracLen n)"

definition numberValue :: "numlit \<Rightarrow> rat" where
  "numberValue n =
     (if magnitude n * 2 ^ 1075 \<le> 1 then 0
      else if neg n then - magnitude n else magnitude n)"

datatype numphase =
    AfterMinus | AfterZero | IntDigits | AfterDot | FracDigits
  | AfterE | AfterExpSign | ExpDigits

datatype lexst =
    Idle
  | InString jsstring
  | InEscape jsstring
  | InUnicode jsstring "nat list"
  | InKeyword jsstring json
  | InNumber numphase numlit

definition isJsonWhitespace :: "code_unit \<Rightarrow> bool" where
  "isJsonWhitespace c = (c = 0x09 \<or> c = 0x0A \<or> c = 0x0D \<or> c = 0x20)"

definition isDigit :: "code_unit \<Rightarrow> bool" where
  "isDigit c = (0x30 \<le> c \<and> c \<le> 0x39)"

definition digitValue :: "code_unit \<Rightarrow> nat" where
  "digitValue c = unat c - 0x30"

definition hexValue :: "code_unit \<Rightarrow> nat option" where
  "hexValue c =
     (if 0x30 \<le> c \<and> c \<le> 0x39 then Some (unat c - 0x30)
      else if 0x41 \<le> c \<and> c \<le> 0x46 then Some (unat c - 0x37)
      else if 0x61 \<le> c \<and> c \<le> 0x66 then Some (unat c - 0x57)
      else None)"

text \<open>The first code unit of a token, or white space between tokens.\<close>

definition startToken :: "code_unit \<Rightarrow> (lexst \<times> token list) option" where
  "startToken c =
     (if isJsonWhitespace c then Some (Idle, [])
      else if c = cu (CHR ''{'') then Some (Idle, [TLBrace])
      else if c = cu (CHR ''}'') then Some (Idle, [TRBrace])
      else if c = cu (CHR ''['') then Some (Idle, [TLBracket])
      else if c = cu (CHR '']'') then Some (Idle, [TRBracket])
      else if c = cu (CHR '':'') then Some (Idle, [TColon])
      else if c = cu (CHR '','') then Some (Idle, [TComma])
      else if c = 0x22 then Some (InString [], [])
      else if c = cu (CHR ''-'') then Some (InNumber AfterMinus (emptyNum\<lparr>neg := True\<rparr>), [])
      else if c = cu (CHR ''0'') then Some (InNumber AfterZero emptyNum, [])
      else if isDigit c then Some (InNumber IntDigits (emptyNum\<lparr>mant := digitValue c\<rparr>), [])
      else if c = cu (CHR ''t'') then Some (InKeyword (ascii ''rue'') (JBool True), [])
      else if c = cu (CHR ''f'') then Some (InKeyword (ascii ''alse'') (JBool False), [])
      else if c = cu (CHR ''n'') then Some (InKeyword (ascii ''ull'') JNull, [])
      else None)"

text \<open>A number ends at the first code unit that cannot extend it; that unit starts the next token.\<close>

definition endNumber :: "numlit \<Rightarrow> code_unit \<Rightarrow> (lexst \<times> token list) option" where
  "endNumber n c =
     (case startToken c of
        None \<Rightarrow> None
      | Some (st, ts) \<Rightarrow> Some (st, TScalar (JNum (numberValue n)) # ts))"

definition isExponentMark :: "code_unit \<Rightarrow> bool" where
  "isExponentMark c = (c = cu (CHR ''e'') \<or> c = cu (CHR ''E''))"

definition numberStep :: "numphase \<Rightarrow> numlit \<Rightarrow> code_unit \<Rightarrow> (lexst \<times> token list) option" where
  "numberStep ph n c =
     (case ph of
        AfterMinus \<Rightarrow>
          (if c = cu (CHR ''0'') then Some (InNumber AfterZero n, [])
           else if isDigit c then Some (InNumber IntDigits (n\<lparr>mant := digitValue c\<rparr>), [])
           else None)
      | AfterZero \<Rightarrow>
          (if c = cu (CHR ''.'') then Some (InNumber AfterDot n, [])
           else if isExponentMark c then Some (InNumber AfterE n, [])
           else endNumber n c)
      | IntDigits \<Rightarrow>
          (if isDigit c then Some (InNumber IntDigits (n\<lparr>mant := mant n * 10 + digitValue c\<rparr>), [])
           else if c = cu (CHR ''.'') then Some (InNumber AfterDot n, [])
           else if isExponentMark c then Some (InNumber AfterE n, [])
           else endNumber n c)
      | AfterDot \<Rightarrow>
          (if isDigit c
           then Some (InNumber FracDigits
                  (n\<lparr>mant := mant n * 10 + digitValue c, fracLen := fracLen n + 1\<rparr>), [])
           else None)
      | FracDigits \<Rightarrow>
          (if isDigit c
           then Some (InNumber FracDigits
                  (n\<lparr>mant := mant n * 10 + digitValue c, fracLen := fracLen n + 1\<rparr>), [])
           else if isExponentMark c then Some (InNumber AfterE n, [])
           else endNumber n c)
      | AfterE \<Rightarrow>
          (if c = cu (CHR ''+'') then Some (InNumber AfterExpSign n, [])
           else if c = cu (CHR ''-'') then Some (InNumber AfterExpSign (n\<lparr>expNeg := True\<rparr>), [])
           else if isDigit c then Some (InNumber ExpDigits (n\<lparr>expo := digitValue c\<rparr>), [])
           else None)
      | AfterExpSign \<Rightarrow>
          (if isDigit c then Some (InNumber ExpDigits (n\<lparr>expo := digitValue c\<rparr>), [])
           else None)
      | ExpDigits \<Rightarrow>
          (if isDigit c then Some (InNumber ExpDigits (n\<lparr>expo := expo n * 10 + digitValue c\<rparr>), [])
           else endNumber n c))"

text \<open>Inside a string literal; the accumulator holds the decoded units, newest first.\<close>

definition stringStep :: "jsstring \<Rightarrow> code_unit \<Rightarrow> (lexst \<times> token list) option" where
  "stringStep acc c =
     (if c = 0x22 then Some (Idle, [TScalar (JStr (rev acc))])
      else if c = 0x5C then Some (InEscape acc, [])
      else if c < 0x20 then None
      else Some (InString (c # acc), []))"

definition escapeStep :: "jsstring \<Rightarrow> code_unit \<Rightarrow> (lexst \<times> token list) option" where
  "escapeStep acc c =
     (if c = 0x22 \<or> c = 0x5C \<or> c = cu (CHR ''/'') then Some (InString (c # acc), [])
      else if c = cu (CHR ''b'') then Some (InString (0x08 # acc), [])
      else if c = cu (CHR ''f'') then Some (InString (0x0C # acc), [])
      else if c = cu (CHR ''n'') then Some (InString (0x0A # acc), [])
      else if c = cu (CHR ''r'') then Some (InString (0x0D # acc), [])
      else if c = cu (CHR ''t'') then Some (InString (0x09 # acc), [])
      else if c = cu (CHR ''u'') then Some (InUnicode acc [], [])
      else None)"

definition hexNumber :: "nat list \<Rightarrow> nat" where
  "hexNumber ds = foldl (\<lambda>a d. a * 16 + d) 0 ds"

definition unicodeStep :: "jsstring \<Rightarrow> nat list \<Rightarrow> code_unit \<Rightarrow> (lexst \<times> token list) option" where
  "unicodeStep acc ds c =
     (case hexValue c of
        None \<Rightarrow> None
      | Some d \<Rightarrow>
          (if length ds = 3 then Some (InString (of_nat (hexNumber (ds @ [d])) # acc), [])
           else Some (InUnicode acc (ds @ [d]), [])))"

definition keywordStep :: "jsstring \<Rightarrow> json \<Rightarrow> code_unit \<Rightarrow> (lexst \<times> token list) option" where
  "keywordStep rest v c =
     (case rest of
        [] \<Rightarrow> None
      | r # rs \<Rightarrow>
          (if c \<noteq> r then None
           else if rs = [] then Some (Idle, [TScalar v])
           else Some (InKeyword rs v, [])))"

definition lexStep :: "lexst \<Rightarrow> code_unit \<Rightarrow> (lexst \<times> token list) option" where
  "lexStep st c =
     (case st of
        Idle \<Rightarrow> startToken c
      | InString acc \<Rightarrow> stringStep acc c
      | InEscape acc \<Rightarrow> escapeStep acc c
      | InUnicode acc ds \<Rightarrow> unicodeStep acc ds c
      | InKeyword rest v \<Rightarrow> keywordStep rest v c
      | InNumber ph n \<Rightarrow> numberStep ph n c)"

text \<open>At the end of the text only a complete number may still be open.\<close>

definition lexEnd :: "lexst \<Rightarrow> token list option" where
  "lexEnd st =
     (case st of
        Idle \<Rightarrow> Some []
      | InNumber ph n \<Rightarrow>
          (if ph = AfterZero \<or> ph = IntDigits \<or> ph = FracDigits \<or> ph = ExpDigits
           then Some [TScalar (JNum (numberValue n))] else None)
      | _ \<Rightarrow> None)"

fun lexFrom :: "lexst \<Rightarrow> jsstring \<Rightarrow> token list option" where
  "lexFrom st [] = lexEnd st"
| "lexFrom st (c # cs) =
     (case lexStep st c of
        None \<Rightarrow> None
      | Some (st', ts) \<Rightarrow>
          (case lexFrom st' cs of None \<Rightarrow> None | Some rest \<Rightarrow> Some (ts @ rest)))"

text \<open>
  The parser. A frame is an open array with its elements so far, an open object with its
  members so far, or an open object that has read a key and waits for the value.
\<close>

datatype frame =
    InArray "json list"
  | InObject "(jsstring \<times> json) list"
  | InMember "(jsstring \<times> json) list" jsstring

datatype expect =
    WantValue | WantValueOrClose | WantKey | WantKeyOrClose | WantColon | WantCommaOrClose
  | Finished json

text \<open>A repeated key keeps its first position and takes the last value.\<close>

fun setProp :: "jsstring \<Rightarrow> json \<Rightarrow> (jsstring \<times> json) list \<Rightarrow> (jsstring \<times> json) list" where
  "setProp k v [] = [(k, v)]"
| "setProp k v (m # ms) = (if fst m = k then (k, v) # ms else m # setProp k v ms)"

text \<open>A finished value goes into the innermost open container, or is the result.\<close>

definition reduce :: "json \<Rightarrow> frame list \<Rightarrow> (expect \<times> frame list) option" where
  "reduce v stack =
     (case stack of
        [] \<Rightarrow> Some (Finished v, [])
      | InArray es # up \<Rightarrow> Some (WantCommaOrClose, InArray (es @ [v]) # up)
      | InMember ms k # up \<Rightarrow> Some (WantCommaOrClose, InObject (setProp k v ms) # up)
      | InObject ms # up \<Rightarrow> None)"

definition valueStart :: "token \<Rightarrow> frame list \<Rightarrow> (expect \<times> frame list) option" where
  "valueStart t stack =
     (case t of
        TScalar v \<Rightarrow> reduce v stack
      | TLBracket \<Rightarrow> Some (WantValueOrClose, InArray [] # stack)
      | TLBrace \<Rightarrow> Some (WantKeyOrClose, InObject [] # stack)
      | _ \<Rightarrow> None)"

definition closeArray :: "frame list \<Rightarrow> (expect \<times> frame list) option" where
  "closeArray stack = (case stack of InArray es # up \<Rightarrow> reduce (JArr es) up | _ \<Rightarrow> None)"

definition closeObject :: "frame list \<Rightarrow> (expect \<times> frame list) option" where
  "closeObject stack = (case stack of InObject ms # up \<Rightarrow> reduce (JObj ms) up | _ \<Rightarrow> None)"

definition keyStart :: "token \<Rightarrow> frame list \<Rightarrow> (expect \<times> frame list) option" where
  "keyStart t stack =
     (case (t, stack) of
        (TScalar (JStr k), InObject ms # up) \<Rightarrow> Some (WantColon, InMember ms k # up)
      | _ \<Rightarrow> None)"

definition nextItem :: "frame list \<Rightarrow> (expect \<times> frame list) option" where
  "nextItem stack =
     (case stack of
        InArray es # up \<Rightarrow> Some (WantValue, stack)
      | InObject ms # up \<Rightarrow> Some (WantKey, stack)
      | _ \<Rightarrow> None)"

definition parseStep :: "expect \<Rightarrow> frame list \<Rightarrow> token \<Rightarrow> (expect \<times> frame list) option" where
  "parseStep e stack t =
     (case e of
        WantValue \<Rightarrow> valueStart t stack
      | WantValueOrClose \<Rightarrow> (if t = TRBracket then closeArray stack else valueStart t stack)
      | WantKey \<Rightarrow> keyStart t stack
      | WantKeyOrClose \<Rightarrow> (if t = TRBrace then closeObject stack else keyStart t stack)
      | WantColon \<Rightarrow> (if t = TColon then Some (WantValue, stack) else None)
      | WantCommaOrClose \<Rightarrow>
          (if t = TComma then nextItem stack
           else if t = TRBracket then closeArray stack
           else if t = TRBrace then closeObject stack
           else None)
      | Finished v \<Rightarrow> None)"

fun parseFrom :: "expect \<Rightarrow> frame list \<Rightarrow> token list \<Rightarrow> json option" where
  "parseFrom e stack [] = (case e of Finished v \<Rightarrow> Some v | _ \<Rightarrow> None)"
| "parseFrom e stack (t # ts) =
     (case parseStep e stack t of
        None \<Rightarrow> None
      | Some (e', stack') \<Rightarrow> parseFrom e' stack' ts)"

definition JSON_parse :: "jsstring \<Rightarrow> json completion" where
  "JSON_parse text =
     (case lexFrom Idle text of
        None \<Rightarrow> Throw SyntaxError
      | Some ts \<Rightarrow>
          (case parseFrom WantValue [] ts of
             None \<Rightarrow> Throw SyntaxError
           | Some v \<Rightarrow> Return v))"

section \<open>The regular expression of extractJson\<close>

text \<open>
  \<open>/```json\s*([\s\S]*?)\s*```/\<close> as a sequence of nodes, matched by backtracking in the
  order the language prescribes: a greedy star first tries to take one more unit, a lazy
  star first tries to take none. \<open>\s\<close> is the white space and line terminator set of
  the language; \<open>[\s\S]\<close> is every code unit.
\<close>

datatype cclass = SpaceClass | AnyClass

datatype node = Lit code_unit | Greedy cclass | Lazy cclass | GroupOpen | GroupClose

definition isRegexSpace :: "code_unit \<Rightarrow> bool" where
  "isRegexSpace c =
     (c = 0x09 \<or> c = 0x0A \<or> c = 0x0B \<or> c = 0x0C \<or> c = 0x0D \<or> c = 0x20 \<or> c = 0xA0
      \<or> c = 0x1680 \<or> (0x2000 \<le> c \<and> c \<le> 0x200A) \<or> c = 0x2028 \<or> c = 0x2029
      \<or> c = 0x202F \<or> c = 0x205F \<or> c = 0x3000 \<or> c = 0xFEFF)"

fun inClass :: "cclass \<Rightarrow> code_unit \<Rightarrow> bool" where
  "inClass SpaceClass c = isRegexSpace c"
| "inClass AnyClass c = True"

definition jsonRegex :: "node list" where
  "jsonRegex =
     map Lit (ascii ''```json'')
     @ [Greedy SpaceClass, GroupOpen, Lazy AnyClass, GroupClose, Greedy SpaceClass]
     @ map Lit (ascii ''```'')"

text \<open>A unit consumed inside the group joins the capture.\<close>

definition consume :: "bool \<Rightarrow> jsstring \<Rightarrow> code_unit \<Rightarrow> jsstring" where
  "consume inGroup cap x = (if inGroup then cap @ [x] else cap)"

text \<open>
  \<open>matchHere ns s inGroup cap\<close>: match the nodes at the start of \<open>s\<close>; the result is the
  text captured by group 1.
\<close>

fun matchHere :: "node list \<Rightarrow> jsstring \<Rightarrow> bool \<Rightarrow> jsstring \<Rightarrow> jsstring option" where
  "matchHere [] s inGroup cap = Some cap"
| "matchHere (Lit c # ns) s inGroup cap =
     (case s of
        [] \<Rightarrow> None
      | x # xs \<Rightarrow> (if x = c then matchHere ns xs inGroup (consume inGroup cap x) else None))"
| "matchHere (GroupOpen # ns) s inGroup cap = matchHere ns s True []"
| "matchHere (GroupClose # ns) s inGroup cap = matchHere ns s False cap"
| "matchHere (Greedy k # ns) s inGroup cap =
     (case s of
        [] \<Rightarrow> matchHere ns s inGroup cap
      | x # xs \<Rightarrow>
          (if inClass k x
           then (case matchHere (Greedy k # ns) xs inGroup (consume inGroup cap x) of
                   Some r \<Rightarrow> Some r
                 | None \<Rightarrow> matchHere ns s inGroup cap)
           else matchHere ns s inGroup cap))"
| "matchHere (Lazy k # ns) s inGroup cap =
     (case matchHere ns s inGroup cap of
        Some r \<Rightarrow> Some r
      | None \<Rightarrow>
          (case s of
             [] \<Rightarrow> None
           | x # xs \<Rightarrow>
               (if inClass k x then matchHere (Lazy k # ns) xs inGroup (consume inGroup cap x)
                else None)))"

text \<open>
  \<open>str.match(regex)\<close> for a regular expression without the \<open>g\<close> flag: the match at the
  leftmost start index that has one, or \<open>null\<close>. Of the match array only element 1 is
  read, so the model returns \<open>Some\<close> of the capture, \<open>None\<close> for \<open>null\<close>.
\<close>

fun str_match :: "node list \<Rightarrow> jsstring \<Rightarrow> jsstring option" where
  "str_match ns [] = matchHere ns [] False []"
| "str_match ns (x # xs) =
     (case matchHere ns (x # xs) False [] of
        Some cap \<Rightarrow> Some cap
      | None \<Rightarrow> str_match ns xs)"

text \<open>
  The closing fence stands at the start of \<open>u\<close> after white space: what the last two
  nodes of the regular expression accept.
\<close>

definition closesWith :: "jsstring \<Rightarrow> jsstring \<Rightarrow> bool" where
  "closesWith cl u = (take (length cl) (dropWhile isRegexSpace u) = cl)"

section \<open>extractJson\<close>

text \<open>
  \<open>function extractJson(str)\<close>. The test \<open>match && match[1]\<close> holds when there is a match
  and its capture is not the empty string. The two \<open>console.error\<close> calls write a log
  line and are left out.
\<close>

definition extractJson :: "jsstring \<Rightarrow> json completion" where
  "extractJson str =
     (let match = str_match jsonRegex str in
      if match \<noteq> None \<and> the match \<noteq> []
      then tryCatch (JSON_parse (the match)) (\<lambda>error. Return JNull)
      else tryCatch (JSON_parse str) (\<lambda>error. Return JNull))"

section \<open>analyzeResumeText\<close>

text \<open>
  The collaborators are parameters: \<open>model.generateContent(prompt)\<close> followed by
  \<open>result.response.text()\<close> gives the reply text or throws; \<open>pdf(buffer)\<close> and
  \<open>mammoth.extractRawText({buffer})\<close> give the extracted text or throw. Every function
  returns, beside its completion, the calls it made to collaborators, in order.
\<close>

type_synonym bytes = "8 word list"

datatype call = GenerateContent jsstring | PdfParse bytes | MammothExtractRawText bytes

definition promptHead :: jsstring where
  \<open>promptHead = ascii (concat
      [''\<newline>'',
       ''        Analyze the resume text provided below. Based on the skills and experience, perform the following tasks:\<newline>'',
       ''        1.  Identify the user's key skills.\<newline>'',
       ''        2.  Suggest three relevant, in-demand job titles.\<newline>'',
       ''        3.  For each job title, list the key required skills.\<newline>'',
       ''        4.  Compare the user's skills with the job requirements to find the missing skills for each job.\<newline>'',
       ''        5.  For each missing skill, recommend one specific online course from Coursera or Udemy, including the course name and a direct URL.\<newline>'',
       ''\<newline>'',
       ''        Return the output ONLY as a single, valid JSON object, enclosed in ```json ... ```. Do not include any introductory text or explanations outside of the JSON block.\<newline>'',
       ''\<newline>'',
       ''        The JSON structure must be:\<newline>'',
       ''        {\<newline>'',
       ''          "userSkills": ["Skill 1", "Skill 2"],\<newline>'',
       ''          "jobSuggestions": [\<newline>'',
       ''            {\<newline>'',
       ''              "title": "Job Title 1",\<newline>'',
       ''              "requiredSkills": ["Skill A", "Skill B", "Skill C"],\<newline>'',
       ''              "missingSkills": [\<newline>'',
       ''                {\<newline>'',
       ''                  "skill": "Skill C",\<newline>'',
       ''                  "recommendation": {\<newline>'',
       ''                    "course": "Course Name for Skill C",\<newline>'',
       ''                    "url": "https://www.coursera.org/..."\<newline>'',
       ''                  }\<newline>'',
       ''                }\<newline>'',
       ''              ]\<newline>'',
       ''            }\<newline>'',
       ''          ]\<newline>'',
       ''        }\<newline>'',
       ''\<newline>'',
       ''        --- Resume Text ---\<newline>'',
       ''        ''])\<close>

definition promptTail :: jsstring where
  \<open>promptTail = ascii (concat
      [''\<newline>'',
       ''    ''])\<close>

definition buildPrompt :: "jsstring \<Rightarrow> jsstring" where
  "buildPrompt textToAnalyze = promptHead @ textToAnalyze @ promptTail"

text \<open>Sequencing inside a \<open>try\<close> block: a throw skips the statements after it.\<close>

definition andThen :: "'a completion \<Rightarrow> ('a \<Rightarrow> 'b completion) \<Rightarrow> 'b completion" where
  "andThen m f = (case m of Return v \<Rightarrow> f v | Throw e \<Rightarrow> Throw e)"

definition analyzeResumeText ::
    "(jsstring \<Rightarrow> jsstring completion) \<Rightarrow> jsstring \<Rightarrow> json completion \<times> call list" where
  "analyzeResumeText generateContent textToAnalyze =
     (let prompt = buildPrompt textToAnalyze in
      (tryCatch (andThen (generateContent prompt) (\<lambda>text. extractJson text))
         (\<lambda>error. Return JNull),
       [GenerateContent prompt]))"

text \<open>
  The definition above is the call \<open>analyzeResumeText(s)\<close> for a string \<open>s\<close>. The text
  route passes whatever value the body holds. The template literal converts the value to
  a string before the \<open>try\<close> block is entered: a string is taken as it is, any other
  value goes through the conversion \<open>toStr\<close> of the language, which may throw (an object
  whose own \<open>toString\<close> property is not a function cannot be converted). A throw there
  leaves \<open>analyzeResumeText\<close>, and no call to the model is made.
\<close>

definition toPromptText :: "(json \<Rightarrow> jsstring completion) \<Rightarrow> json \<Rightarrow> jsstring completion" where
  "toPromptText toStr v = (case v of JStr s \<Rightarrow> Return s | _ \<Rightarrow> toStr v)"

definition analyzeResumeTextOf ::
    "(json \<Rightarrow> jsstring completion) \<Rightarrow> (jsstring \<Rightarrow> jsstring completion) \<Rightarrow> json
       \<Rightarrow> json completion \<times> call list" where
  "analyzeResumeTextOf toStr generateContent textToAnalyze =
     (case toPromptText toStr textToAnalyze of
        Throw e \<Rightarrow> (Throw e, [])
      | Return s \<Rightarrow> analyzeResumeText generateContent s)"

section \<open>The two endpoints\<close>

text \<open>
  A response is a status and the object handed to \<open>res.json\<close>. \<open>errorResponse n m\<close> is
  \<open>res.status(n).json({ error: m })\<close>; \<open>analysisResponse v\<close> is
  \<open>res.json({ analysis: v })\<close>, which leaves the status at 200. A handler that throws
  sends no response of its own.
\<close>

datatype body = ErrorBody jsstring | AnalysisBody json

record response =
  status :: nat
  body :: body

definition errorResponse :: "nat \<Rightarrow> string \<Rightarrow> response" where
  "errorResponse code message = \<lparr>status = code, body = ErrorBody (ascii message)\<rparr>"

definition analysisResponse :: "json \<Rightarrow> response" where
  "analysisResponse v = \<lparr>status = 200, body = AnalysisBody v\<rparr>"

text \<open>
  POST /api/analyze-text. The field \<open>resumeText\<close> of the body is absent (\<open>None\<close>, the
  value \<open>undefined\<close>) or a JSON value; \<open>!resumeText\<close> holds when it is absent or falsy.
  When \<open>analyzeResumeText\<close> throws, the handler throws.
\<close>

record text_request =
  resumeText :: "json option"

definition analyzeTextHandler ::
    "(json \<Rightarrow> jsstring completion) \<Rightarrow> (jsstring \<Rightarrow> jsstring completion) \<Rightarrow> text_request
       \<Rightarrow> response completion \<times> call list" where
  "analyzeTextHandler toStr generateContent req =
     (case resumeText req of
        None \<Rightarrow> (Return (errorResponse 400 ''Resume text is required''), [])
      | Some v \<Rightarrow>
          (if \<not> truthy v
           then (Return (errorResponse 400 ''Resume text is required''), [])
           else
             (case analyzeResumeTextOf toStr generateContent v of
                (Throw e, calls) \<Rightarrow> (Throw e, calls)
              | (Return analysisResult, calls) \<Rightarrow>
                  (if \<not> truthy analysisResult
                   then (Return (errorResponse 500 ''Failed to analyze resume from text.''),
                         calls)
                   else (Return (analysisResponse analysisResult), calls)))))"

text \<open>
  POST /api/analyze-file. \<open>req.file\<close> is what the upload middleware leaves: nothing, or
  one file with its declared media type and its bytes.
\<close>

record upload =
  mimetype :: jsstring
  buffer :: bytes

record file_request =
  reqFile :: "upload option"

record decoders =
  pdf :: "bytes \<Rightarrow> jsstring completion"
  extractRawText :: "bytes \<Rightarrow> jsstring completion"

definition pdfMediaType :: jsstring where
  "pdfMediaType = ascii ''application/pdf''"

definition docxMediaType :: jsstring where
  "docxMediaType =
     ascii ''application/vnd.openxmlformats-officedocument.wordprocessingml.document''"

text \<open>The statements of the \<open>try\<close> block after the text has been extracted.\<close>

definition afterExtraction ::
    "(jsstring \<Rightarrow> jsstring completion) \<Rightarrow> jsstring \<Rightarrow> response completion \<times> call list" where
  "afterExtraction generateContent text =
     (if text = []
      then (Return (errorResponse 500 ''Failed to extract text from the file.''), [])
      else
        (case analyzeResumeText generateContent text of
           (Throw e, calls) \<Rightarrow> (Throw e, calls)
         | (Return analysisResult, calls) \<Rightarrow>
             (if \<not> truthy analysisResult
              then (Return (errorResponse 500 ''Failed to analyze resume from file.''), calls)
              else (Return (analysisResponse analysisResult), calls))))"

text \<open>The \<open>try\<close> block: choose the decoder by the declared media type, then go on.\<close>

definition fileTryBlock ::
    "decoders \<Rightarrow> (jsstring \<Rightarrow> jsstring completion) \<Rightarrow> upload \<Rightarrow> response completion \<times> call list" where
  "fileTryBlock dec generateContent f =
     (if mimetype f = pdfMediaType
      then (case pdf dec (buffer f) of
              Throw e \<Rightarrow> (Throw e, [PdfParse (buffer f)])
            | Return text \<Rightarrow>
                (case afterExtraction generateContent text of
                   (r, calls) \<Rightarrow> (r, PdfParse (buffer f) # calls)))
      else if mimetype f = docxMediaType
      then (case extractRawText dec (buffer f) of
              Throw e \<Rightarrow> (Throw e, [MammothExtractRawText (buffer f)])
            | Return text \<Rightarrow>
                (case afterExtraction generateContent text of
                   (r, calls) \<Rightarrow> (r, MammothExtractRawText (buffer f) # calls)))
      else (Return (errorResponse 400
                      ''Unsupported file type. Please upload a PDF or DOCX file.''), []))"

text \<open>The handler: the test for the file, then the \<open>try\<close> block under its \<open>catch\<close>.\<close>

definition analyzeFileHandler ::
    "decoders \<Rightarrow> (jsstring \<Rightarrow> jsstring completion) \<Rightarrow> file_request
       \<Rightarrow> response completion \<times> call list" where
  "analyzeFileHandler dec generateContent req =
     (case reqFile req of
        None \<Rightarrow> (Return (errorResponse 400 ''No file uploaded.''), [])
      | Some f \<Rightarrow>
          (case fileTryBlock dec generateContent f of
             (r, calls) \<Rightarrow>
               (tryCatch r
                  (\<lambda>error. Return (errorResponse 500 ''An internal server error occurred.'')),
                calls)))"

text \<open>
  For a file of a supported type: the result of the decoder the \<open>try\<close> block calls, and
  the call it makes.
\<close>

definition decoded :: "decoders \<Rightarrow> upload \<Rightarrow> jsstring completion" where
  "decoded dec f =
     (if mimetype f = pdfMediaType then pdf dec (buffer f) else extractRawText dec (buffer f))"

definition decoderCall :: "upload \<Rightarrow> call" where
  "decoderCall f =
     (if mimetype f = pdfMediaType then PdfParse (buffer f) else MammothExtractRawText (buffer f))"

section \<open>Startup\<close>







section \<open>What the specification asks for\<close>

text \<open>
  JSON Recovery as the specification words it (section 4.2): look for the fenced block;
  if one is found parse its interior, and only if none is found parse the whole string;
  a failed parse gives \<open>null\<close>. It is compared with \<open>extractJson\<close> below.
\<close>

definition recoverAsSpecified :: "jsstring \<Rightarrow> json completion" where
  "recoverAsSpecified raw =
     (case str_match jsonRegex raw of
        Some interior \<Rightarrow> tryCatch (JSON_parse interior) (\<lambda>error. Return JNull)
      | None \<Rightarrow> tryCatch (JSON_parse raw) (\<lambda>error. Return JNull))"

text \<open>
  The shape AnalysisResult of the data model, which is the structure the prompt of
  \<open>analyzeResumeText\<close> asks the model for. Further properties are allowed.
\<close>

definition isString :: "json \<Rightarrow> bool" where
  "isString v = (case v of JStr s \<Rightarrow> True | _ \<Rightarrow> False)"

definition isArrayOf :: "(json \<Rightarrow> bool) \<Rightarrow> json \<Rightarrow> bool" where
  "isArrayOf P v = (case v of JArr xs \<Rightarrow> list_all P xs | _ \<Rightarrow> False)"

definition hasField :: "string \<Rightarrow> (json \<Rightarrow> bool) \<Rightarrow> json \<Rightarrow> bool" where
  "hasField name P v =
     (case v of
        JObj ms \<Rightarrow> (case map_of ms (ascii name) of Some x \<Rightarrow> P x | None \<Rightarrow> False)
      | _ \<Rightarrow> False)"

definition isRecommendation :: "json \<Rightarrow> bool" where
  "isRecommendation v = (hasField ''course'' isString v \<and> hasField ''url'' isString v)"

definition isMissingSkill :: "json \<Rightarrow> bool" where
  "isMissingSkill v =
     (hasField ''skill'' isString v \<and> hasField ''recommendation'' isRecommendation v)"

definition isJobSuggestion :: "json \<Rightarrow> bool" where
  "isJobSuggestion v =
     (hasField ''title'' isString v
      \<and> hasField ''requiredSkills'' (isArrayOf isString) v
      \<and> hasField ''missingSkills'' (isArrayOf isMissingSkill) v)"

definition isAnalysisResult :: "json \<Rightarrow> bool" where
  "isAnalysisResult v =
     (hasField ''userSkills'' (isArrayOf isString) v
      \<and> hasField ''jobSuggestions'' (isArrayOf isJobSuggestion) v)"

section \<open>Collaborators and environments used as examples\<close>

definition alwaysReplies :: "jsstring \<Rightarrow> jsstring \<Rightarrow> jsstring completion" where
  "alwaysReplies reply prompt = Return reply"

definition alwaysFails :: "jsstring \<Rightarrow> jsstring completion" where
  "alwaysFails prompt = Throw CollaboratorError"

definition decodeAs :: "jsstring \<Rightarrow> bytes \<Rightarrow> jsstring completion" where
  "decodeAs text b = Return text"

definition decodeFails :: "bytes \<Rightarrow> jsstring completion" where
  "decodeFails b = Throw CollaboratorError"

definition pdfUpload :: upload where
  "pdfUpload = \<lparr>mimetype = pdfMediaType, buffer = [0x25, 0x50, 0x44, 0x46]\<rparr>"

definition docxUpload :: upload where
  "docxUpload = \<lparr>mimetype = docxMediaType, buffer = [0x50, 0x4B, 0x03, 0x04]\<rparr>"

definition plainUpload :: upload where
  "plainUpload = \<lparr>mimetype = ascii ''text/plain'', buffer = [0x25, 0x50, 0x44, 0x46]\<rparr>"

definition noToString :: "json \<Rightarrow> jsstring completion" where
  "noToString v = Throw TypeError"

definition toStringGiving :: "jsstring \<Rightarrow> json \<Rightarrow> jsstring completion" where
  "toStringGiving s v = Return s"





section \<open>Evaluation and structure lemmas\<close>

lemmas json_eval = JSON_parse_def cu_def ascii_def lexStep_def startToken_def
  isJsonWhitespace_def isDigit_def digitValue_def hexValue_def emptyNum_def magnitude_def
  numberValue_def endNumber_def isExponentMark_def numberStep_def stringStep_def escapeStep_def
  hexNumber_def unicodeStep_def keywordStep_def lexEnd_def reduce_def valueStart_def closeArray_def
  closeObject_def keyStart_def nextItem_def parseStep_def

lemmas regex_eval = jsonRegex_def consume_def isRegexSpace_def cu_def ascii_def

lemma ascii_eq_Nil [simp]: "(ascii s = []) = (s = [])"
  by (simp add: ascii_def)

lemma match_fenced:
  \<open>str_match jsonRegex (ascii ''```json\<newline>{"a":1}\<newline>```'') = Some (ascii ''{"a":1}'')\<close>
  by (simp add: regex_eval)

lemma match_bare: \<open>str_match jsonRegex (ascii ''{"a":1}'') = None\<close>
  by (simp add: regex_eval)

lemma match_notjson: \<open>str_match jsonRegex (ascii ''not json'') = None\<close>
  by (simp add: regex_eval)

lemma match_emptyfence: \<open>str_match jsonRegex (ascii ''```json\<newline>```'') = Some []\<close>
  by (simp add: regex_eval)

lemma match_quotedfence: \<open>str_match jsonRegex (ascii ''"```json```"'') = Some []\<close>
  by (simp add: regex_eval)

lemma match_false: \<open>str_match jsonRegex (ascii ''false'') = None\<close>
  by (simp add: regex_eval)

lemma match_zero: \<open>str_match jsonRegex (ascii ''0'') = None\<close>
  by (simp add: regex_eval)

lemma match_seven: \<open>str_match jsonRegex (ascii ''7'') = None\<close>
  by (simp add: regex_eval)

lemma match_partial: \<open>str_match jsonRegex (ascii ''{"userSkills":[]}'') = None\<close>
  by (simp add: regex_eval)

lemma parse_a1: \<open>JSON_parse (ascii ''{"a":1}'') = Return (JObj [(ascii ''a'', JNum 1)])\<close>
  by (simp add: json_eval)

lemma parse_notjson: \<open>JSON_parse (ascii ''not json'') = Throw SyntaxError\<close>
  by (simp add: json_eval)

lemma parse_emptyfence: \<open>JSON_parse (ascii ''```json\<newline>```'') = Throw SyntaxError\<close>
  by (simp add: json_eval)

lemma parse_quotedfence:
  \<open>JSON_parse (ascii ''"```json```"'') = Return (JStr (ascii ''```json```''))\<close>
  by (simp add: json_eval)

lemma parse_empty: "JSON_parse [] = Throw SyntaxError"
  by (simp add: json_eval)

lemma parse_false: \<open>JSON_parse (ascii ''false'') = Return (JBool False)\<close>
  by (simp add: json_eval)

lemma parse_zero: \<open>JSON_parse (ascii ''0'') = Return (JNum 0)\<close>
  by (simp add: json_eval)

lemma parse_seven: \<open>JSON_parse (ascii ''7'') = Return (JNum 7)\<close>
  by (simp add: json_eval)

lemma parse_partial:
  \<open>JSON_parse (ascii ''{"userSkills":[]}'') = Return (JObj [(ascii ''userSkills'', JArr [])])\<close>
  by (simp add: json_eval)

lemma match_emptystring: \<open>str_match jsonRegex (ascii ''""'') = None\<close>
  by (simp add: regex_eval)

lemma parse_emptystring: \<open>JSON_parse (ascii ''""'') = Return (JStr [])\<close>
  by (simp add: json_eval)

lemma media_types_differ: "pdfMediaType \<noteq> docxMediaType"
  by (simp add: pdfMediaType_def docxMediaType_def ascii_def)

lemma plain_not_pdf: "ascii ''text/plain'' \<noteq> pdfMediaType"
  by (simp add: pdfMediaType_def ascii_def cu_def)

lemma plain_not_docx: "ascii ''text/plain'' \<noteq> docxMediaType"
  by (simp add: docxMediaType_def ascii_def cu_def)

section \<open>JSON.parse and the regular expression on further inputs\<close>

lemma parse_nested:
  \<open>JSON_parse (ascii ''{"k": [1, -2.5e1, true, null, {}], "s": "x"}'') =
     Return (JObj [(ascii ''k'', JArr [JNum 1, JNum (- 25), JBool True, JNull, JObj []]),
                   (ascii ''s'', JStr (ascii ''x''))])\<close>
  by (simp add: json_eval)

lemma parse_repeated_key:
  \<open>JSON_parse (ascii ''{"a":1,"b":[],"a":2}'') =
     Return (JObj [(ascii ''a'', JNum 2), (ascii ''b'', JArr [])])\<close>
  by (simp add: json_eval)

lemma parse_escapes:
  "JSON_parse [0x22, 0x5C, 0x6E, 0x5C, 0x75, 0x30, 0x30, 0x34, 0x31, 0x22] =
     Return (JStr [0x0A, 0x41])"
  by (simp add: json_eval)

lemma parse_underflow: "JSON_parse (ascii ''1e-400'') = Return (JNum 0)"
  by (simp add: json_eval)

lemma parse_small: "JSON_parse (ascii ''0.5e-2'') = Return (JNum (1 / 200))"
  by (simp add: json_eval)

lemma parse_rejects:
  \<open>JSON_parse (ascii ''[1,]'') = Throw SyntaxError\<close>
  \<open>JSON_parse (ascii ''{"a":1,}'') = Throw SyntaxError\<close>
  \<open>JSON_parse (ascii ''01'') = Throw SyntaxError\<close>
  \<open>JSON_parse (ascii ''{a:1}'') = Throw SyntaxError\<close>
  \<open>JSON_parse (ascii ''[1] x'') = Throw SyntaxError\<close>
  \<open>JSON_parse (ascii ''"a'') = Throw SyntaxError\<close>
  \<open>JSON_parse (ascii '' '') = Throw SyntaxError\<close>
  by (simp_all add: json_eval)

lemma match_in_prose:
  \<open>str_match jsonRegex (ascii ''Here: ```json  [1, 2]  ``` and ```'') = Some (ascii ''[1, 2]'')\<close>
  by (simp add: regex_eval)

lemma match_unclosed: \<open>str_match jsonRegex (ascii ''```json [1, 2] ``'') = None\<close>
  by (simp add: regex_eval)

lemma match_untagged: \<open>str_match jsonRegex (ascii ''``` [1, 2] ```'') = None\<close>
  by (simp add: regex_eval)

section \<open>What a match of the regular expression is\<close>

text \<open>
  The backtracking matcher finds a match exactly when the string holds the opening fence
  and, somewhere after it, the closing fence (\<open>fence_found_iff\<close>); the capture is then
  text that stands between the two fences, with only white space left out on either side
  (\<open>capture_is_interior\<close>).
\<close>

lemma matchHere_lits:
  "matchHere (map Lit lits @ ns) s g cap =
     (if take (length lits) s = lits
      then matchHere ns (drop (length lits) s) g (if g then cap @ lits else cap)
      else None)"
proof (induction lits arbitrary: s cap)
  case Nil
  then show ?case by simp
next
  case (Cons l ls)
  show ?case
  proof (cases s)
    case Nil
    then show ?thesis by simp
  next
    case (Cons x xs)
    then show ?thesis using Cons.IH [of xs "consume g cap x"]
      by (auto simp: consume_def)
  qed
qed

lemma matchHere_only_lits:
  "matchHere (map Lit lits) s False cap = (if take (length lits) s = lits then Some cap else None)"
  using matchHere_lits [of lits "[]" s False cap] by simp

lemma take_eq_hd: "cl \<noteq> [] \<Longrightarrow> take (length cl) (x # xs) = cl \<Longrightarrow> hd cl = x"
  by (cases cl) auto

lemma matchHere_close:
  assumes "cl \<noteq> []" and "\<not> isRegexSpace (hd cl)"
  shows "matchHere (Greedy SpaceClass # map Lit cl) s False cap =
     (if closesWith cl s then Some cap else None)"
proof (induction s)
  case Nil
  then show ?case using assms(1) by (simp add: matchHere_only_lits closesWith_def)
next
  case (Cons x xs)
  show ?case
  proof (cases "isRegexSpace x")
    case True
    then have "take (length cl) (x # xs) \<noteq> cl" using assms take_eq_hd [of cl x xs] by auto
    then have "matchHere (map Lit cl) (x # xs) False cap = None"
      by (simp add: matchHere_only_lits)
    moreover have "closesWith cl (x # xs) = closesWith cl xs"
      using True by (simp add: closesWith_def)
    ultimately show ?thesis using True Cons by (simp add: consume_def)
  next
    case False
    then have "closesWith cl (x # xs) = (take (length cl) (x # xs) = cl)"
      by (simp add: closesWith_def)
    with False show ?thesis by (simp add: matchHere_only_lits)
  qed
qed

lemma closes_later: "(\<exists>k. closesWith cl (drop k (x # xs))) =
    (closesWith cl (x # xs) \<or> (\<exists>k. closesWith cl (drop k xs)))"
proof
  assume "\<exists>k. closesWith cl (drop k (x # xs))"
  then obtain k where k: "closesWith cl (drop k (x # xs))" by blast
  show "closesWith cl (x # xs) \<or> (\<exists>k. closesWith cl (drop k xs))"
  proof (cases k)
    case 0
    with k show ?thesis by simp
  next
    case (Suc j)
    with k have "closesWith cl (drop j xs)" by simp
    then show ?thesis by blast
  qed
next
  assume "closesWith cl (x # xs) \<or> (\<exists>k. closesWith cl (drop k xs))"
  then show "\<exists>k. closesWith cl (drop k (x # xs))"
  proof
    assume "closesWith cl (x # xs)"
    then have "closesWith cl (drop 0 (x # xs))" by simp
    then show ?thesis by blast
  next
    assume "\<exists>k. closesWith cl (drop k xs)"
    then obtain k where "closesWith cl (drop k xs)" by blast
    then have "closesWith cl (drop (Suc k) (x # xs))" by simp
    then show ?thesis by blast
  qed
qed

lemma matchHere_interior:
  assumes "cl \<noteq> []" and "\<not> isRegexSpace (hd cl)"
  shows "(matchHere (Lazy AnyClass # GroupClose # Greedy SpaceClass # map Lit cl) s True cap
      \<noteq> None) = (\<exists>k. closesWith cl (drop k s))"
proof -
  define R where "R = GroupClose # Greedy SpaceClass # map Lit cl"
  have close: "matchHere R u True c = (if closesWith cl u then Some c else None)" for u c
    by (simp only: R_def matchHere.simps(4) matchHere_close [OF assms])
  have empty: "matchHere (Lazy AnyClass # R) [] True c = matchHere R [] True c" for c
    by (subst matchHere.simps(6)) (simp split: option.splits del: matchHere.simps)
  have step: "matchHere (Lazy AnyClass # R) (x # xs) True c =
      (case matchHere R (x # xs) True c of
         Some r \<Rightarrow> Some r
       | None \<Rightarrow> matchHere (Lazy AnyClass # R) xs True (c @ [x]))" for x xs c
    by (subst matchHere.simps(6)) (simp add: consume_def split: option.splits del: matchHere.simps)
  have "(matchHere (Lazy AnyClass # R) s True cap \<noteq> None) = (\<exists>k. closesWith cl (drop k s))"
  proof (induction s arbitrary: cap)
    case Nil
    show ?case by (simp only: empty close) simp
  next
    case (Cons x xs)
    show ?case
      using Cons [of "cap @ [x]"] closes_later [of cl x xs]
      by (simp only: step close) (simp split: if_splits)
  qed
  then show ?thesis by (simp only: R_def)
qed

lemma matchHere_after_tag:
  assumes "cl \<noteq> []" and "\<not> isRegexSpace (hd cl)"
  shows "(matchHere (Greedy SpaceClass # GroupOpen # Lazy AnyClass # GroupClose
        # Greedy SpaceClass # map Lit cl) s False cap \<noteq> None) = (\<exists>k. closesWith cl (drop k s))"
proof -
  define Q where "Q = GroupOpen # Lazy AnyClass # GroupClose # Greedy SpaceClass # map Lit cl"
  have inner: "(matchHere Q u False c \<noteq> None) = (\<exists>k. closesWith cl (drop k u))" for u c
    by (simp only: Q_def matchHere.simps(3) matchHere_interior [OF assms])
  have empty: "matchHere (Greedy SpaceClass # Q) [] False c = matchHere Q [] False c" for c
    by (subst matchHere.simps(5)) (simp del: matchHere.simps)
  have space: "matchHere (Greedy SpaceClass # Q) (x # xs) False c =
      (case matchHere (Greedy SpaceClass # Q) xs False c of
         Some r \<Rightarrow> Some r
       | None \<Rightarrow> matchHere Q (x # xs) False c)" if "isRegexSpace x" for x xs c
    using that by (subst matchHere.simps(5)) (simp add: consume_def split: option.splits del: matchHere.simps)
  have other: "matchHere (Greedy SpaceClass # Q) (x # xs) False c = matchHere Q (x # xs) False c"
    if "\<not> isRegexSpace x" for x xs c
    using that by (subst matchHere.simps(5)) (simp del: matchHere.simps)
  have "(matchHere (Greedy SpaceClass # Q) s False cap \<noteq> None) = (\<exists>k. closesWith cl (drop k s))"
  proof (induction s)
    case Nil
    show ?case by (simp only: empty inner)
  next
    case (Cons x xs)
    show ?case
    proof (cases "isRegexSpace x")
      case False
      show ?thesis by (simp only: other [OF False] inner)
    next
      case True
      then have "closesWith cl (x # xs) = closesWith cl (drop 0 xs)"
        by (simp add: closesWith_def)
      then have later: "(\<exists>k. closesWith cl (drop k (x # xs))) = (\<exists>k. closesWith cl (drop k xs))"
        using closes_later [of cl x xs] by blast
      show ?thesis
      proof (cases "matchHere (Greedy SpaceClass # Q) xs False cap")
        case None
        with Cons have "\<not> (\<exists>k. closesWith cl (drop k xs))" by simp
        with later have "matchHere Q (x # xs) False cap = None" using inner [of "x # xs" cap] by simp
        with None later Cons show ?thesis by (simp only: space [OF True]) simp
      next
        case (Some r)
        with Cons have "\<exists>k. closesWith cl (drop k xs)" by simp
        with Some later show ?thesis by (simp only: space [OF True]) simp
      qed
    qed
  qed
  then show ?thesis by (simp only: Q_def)
qed

lemma closes_iff:
  assumes "cl \<noteq> []" and "\<not> isRegexSpace (hd cl)"
  shows "(\<exists>k. closesWith cl (drop k s)) = (\<exists>mid post. s = mid @ cl @ post)"
proof
  assume "\<exists>k. closesWith cl (drop k s)"
  then obtain k where k: "closesWith cl (drop k s)" by blast
  define u where "u = dropWhile isRegexSpace (drop k s)"
  from k have t: "take (length cl) u = cl" by (simp add: closesWith_def u_def)
  have "s = take k s @ takeWhile isRegexSpace (drop k s) @ u" by (simp add: u_def)
  moreover have "u = cl @ drop (length cl) u" using t append_take_drop_id [of "length cl" u] by simp
  ultimately have "s = (take k s @ takeWhile isRegexSpace (drop k s)) @ cl @ drop (length cl) u"
    by simp
  then show "\<exists>mid post. s = mid @ cl @ post" by blast
next
  assume "\<exists>mid post. s = mid @ cl @ post"
  then obtain mid post where s: "s = mid @ cl @ post" by blast
  obtain c cs where cl: "cl = c # cs" using assms(1) by (cases cl) auto
  have "closesWith cl (drop (length mid) s)"
    using assms(2) by (simp add: s closesWith_def cl)
  then show "\<exists>k. closesWith cl (drop k s)" by blast
qed

lemma fence_close_facts: "ascii ''```'' \<noteq> []" "\<not> isRegexSpace (hd (ascii ''```''))"
  by (simp_all add: ascii_def cu_def isRegexSpace_def)

lemma matchHere_jsonRegex:
  "(matchHere jsonRegex s False [] \<noteq> None) =
     (\<exists>mid post. s = ascii ''```json'' @ mid @ ascii ''```'' @ post)"
proof -
  define op where "op = ascii ''```json''"
  define cl where "cl = ascii ''```''"
  have facts: "cl \<noteq> []" "\<not> isRegexSpace (hd cl)"
    using fence_close_facts by (simp_all add: cl_def)
  have re: "jsonRegex = map Lit op @ (Greedy SpaceClass # GroupOpen # Lazy AnyClass # GroupClose
        # Greedy SpaceClass # map Lit cl)"
    by (simp add: jsonRegex_def op_def cl_def)
  have "(matchHere jsonRegex s False [] \<noteq> None) =
      (take (length op) s = op \<and> (\<exists>k. closesWith cl (drop k (drop (length op) s))))"
    unfolding re matchHere_lits using matchHere_after_tag [OF facts, of "drop (length op) s" "[]"]
    by simp
  also have "\<dots> = (take (length op) s = op
      \<and> (\<exists>mid post. drop (length op) s = mid @ cl @ post))"
    using closes_iff [OF facts, of "drop (length op) s"] by simp
  also have "\<dots> = (\<exists>mid post. s = op @ mid @ cl @ post)"
  proof
    assume a: "take (length op) s = op \<and> (\<exists>mid post. drop (length op) s = mid @ cl @ post)"
    then obtain mid post where "drop (length op) s = mid @ cl @ post" by blast
    then have "s = op @ mid @ cl @ post"
      using a append_take_drop_id [of "length op" s] by simp
    then show "\<exists>mid post. s = op @ mid @ cl @ post" by blast
  next
    assume "\<exists>mid post. s = op @ mid @ cl @ post"
    then obtain mid post where "s = op @ mid @ cl @ post" by blast
    then have "take (length op) s = op \<and> drop (length op) s = mid @ cl @ post" by simp
    then show "take (length op) s = op \<and> (\<exists>mid post. drop (length op) s = mid @ cl @ post)"
      by blast
  qed
  finally show ?thesis by (simp add: op_def cl_def)
qed

lemma str_match_found:
  "(str_match ns s \<noteq> None) = (\<exists>pre rest. s = pre @ rest \<and> matchHere ns rest False [] \<noteq> None)"
proof (induction s)
  case Nil
  then show ?case by simp
next
  case (Cons x xs)
  show ?case
  proof (cases "matchHere ns (x # xs) False []")
    case (Some cap)
    then have "x # xs = [] @ (x # xs) \<and> matchHere ns (x # xs) False [] \<noteq> None" by simp
    then have "\<exists>pre rest. x # xs = pre @ rest \<and> matchHere ns rest False [] \<noteq> None" by blast
    with Some show ?thesis by simp
  next
    case None
    have "(\<exists>pre rest. x # xs = pre @ rest \<and> matchHere ns rest False [] \<noteq> None) =
          (\<exists>pre rest. xs = pre @ rest \<and> matchHere ns rest False [] \<noteq> None)"
    proof
      assume "\<exists>pre rest. x # xs = pre @ rest \<and> matchHere ns rest False [] \<noteq> None"
      then obtain pre rest where pr: "x # xs = pre @ rest" "matchHere ns rest False [] \<noteq> None"
        by blast
      with None have "pre \<noteq> []" by auto
      then obtain p ps where "pre = p # ps" by (cases pre) auto
      with pr show "\<exists>pre rest. xs = pre @ rest \<and> matchHere ns rest False [] \<noteq> None" by auto
    next
      assume "\<exists>pre rest. xs = pre @ rest \<and> matchHere ns rest False [] \<noteq> None"
      then obtain pre rest where "xs = pre @ rest" "matchHere ns rest False [] \<noteq> None" by blast
      then have "x # xs = (x # pre) @ rest \<and> matchHere ns rest False [] \<noteq> None" by simp
      then show "\<exists>pre rest. x # xs = pre @ rest \<and> matchHere ns rest False [] \<noteq> None" by blast
    qed
    with None Cons show ?thesis by simp
  qed
qed

lemma fence_found_iff:
  "(str_match jsonRegex s \<noteq> None) =
     (\<exists>pre mid post. s = pre @ ascii ''```json'' @ mid @ ascii ''```'' @ post)"
  unfolding str_match_found matchHere_jsonRegex by blast

lemma closesWith_split:
  assumes "closesWith cl u"
  shows "\<exists>ws post. u = ws @ cl @ post \<and> list_all isRegexSpace ws"
proof -
  define v where "v = dropWhile isRegexSpace u"
  from assms have "take (length cl) v = cl" by (simp add: closesWith_def v_def)
  then have "v = cl @ drop (length cl) v" using append_take_drop_id [of "length cl" v] by simp
  moreover have "u = takeWhile isRegexSpace u @ v" by (simp add: v_def)
  ultimately have "u = takeWhile isRegexSpace u @ cl @ drop (length cl) v" by simp
  moreover have "list_all isRegexSpace (takeWhile isRegexSpace u)"
    by (induction u) auto
  ultimately show ?thesis by blast
qed

lemma interior_capture:
  assumes "cl \<noteq> []" and "\<not> isRegexSpace (hd cl)"
    and "matchHere (Lazy AnyClass # GroupClose # Greedy SpaceClass # map Lit cl) s True cap = Some r"
  shows "\<exists>k. r = cap @ take k s \<and> closesWith cl (drop k s)"
proof -
  define R where "R = GroupClose # Greedy SpaceClass # map Lit cl"
  have close: "matchHere R u True c = (if closesWith cl u then Some c else None)" for u c
    by (simp only: R_def matchHere.simps(4) matchHere_close [OF assms(1,2)])
  have empty: "matchHere (Lazy AnyClass # R) [] True c = matchHere R [] True c" for c
    by (subst matchHere.simps(6)) (simp split: option.splits del: matchHere.simps)
  have step: "matchHere (Lazy AnyClass # R) (x # xs) True c =
      (case matchHere R (x # xs) True c of
         Some r \<Rightarrow> Some r
       | None \<Rightarrow> matchHere (Lazy AnyClass # R) xs True (c @ [x]))" for x xs c
    by (subst matchHere.simps(6)) (simp add: consume_def split: option.splits del: matchHere.simps)
  have "matchHere (Lazy AnyClass # R) s True cap = Some r \<Longrightarrow>
      \<exists>k. r = cap @ take k s \<and> closesWith cl (drop k s)"
  proof (induction s arbitrary: cap)
    case Nil
    have "\<not> closesWith cl []" using assms(1) by (simp add: closesWith_def)
    then have "matchHere (Lazy AnyClass # R) [] True cap = None" by (simp only: empty close if_False)
    with Nil show ?case by simp
  next
    case (Cons x xs)
    show ?case
    proof (cases "closesWith cl (x # xs)")
      case True
      with Cons.prems have "r = cap" by (simp only: step close) simp
      with True have "r = cap @ take 0 (x # xs) \<and> closesWith cl (drop 0 (x # xs))" by simp
      then show ?thesis by blast
    next
      case False
      with Cons.prems have "matchHere (Lazy AnyClass # R) xs True (cap @ [x]) = Some r"
        by (simp only: step close) simp
      then obtain k where "r = (cap @ [x]) @ take k xs \<and> closesWith cl (drop k xs)"
        using Cons.IH by blast
      then have "r = cap @ take (Suc k) (x # xs) \<and> closesWith cl (drop (Suc k) (x # xs))"
        by simp
      then show ?thesis by blast
    qed
  qed
  with assms(3) show ?thesis by (simp only: R_def)
qed

lemma after_tag_capture:
  assumes "cl \<noteq> []" and "\<not> isRegexSpace (hd cl)"
    and "matchHere (Greedy SpaceClass # GroupOpen # Lazy AnyClass # GroupClose
        # Greedy SpaceClass # map Lit cl) s False cap = Some r"
  shows "\<exists>ws rest. s = ws @ r @ rest \<and> list_all isRegexSpace ws \<and> closesWith cl rest"
proof -
  define Q where "Q = GroupOpen # Lazy AnyClass # GroupClose # Greedy SpaceClass # map Lit cl"
  have inner: "\<exists>rest. u = r' @ rest \<and> closesWith cl rest"
    if "matchHere Q u False c = Some r'" for u c r'
  proof -
    from that have "matchHere (Lazy AnyClass # GroupClose # Greedy SpaceClass # map Lit cl)
        u True [] = Some r'"
      by (simp only: Q_def matchHere.simps(3))
    then obtain k where "r' = take k u \<and> closesWith cl (drop k u)"
      using interior_capture [OF assms(1,2), of u "[]" r'] by auto
    then have "u = r' @ drop k u \<and> closesWith cl (drop k u)" by simp
    then show ?thesis by blast
  qed
  have empty: "matchHere (Greedy SpaceClass # Q) [] False c = matchHere Q [] False c" for c
    by (subst matchHere.simps(5)) (simp del: matchHere.simps)
  have space: "matchHere (Greedy SpaceClass # Q) (x # xs) False c =
      (case matchHere (Greedy SpaceClass # Q) xs False c of
         Some r \<Rightarrow> Some r
       | None \<Rightarrow> matchHere Q (x # xs) False c)" if "isRegexSpace x" for x xs c
    using that
    by (subst matchHere.simps(5)) (simp add: consume_def split: option.splits del: matchHere.simps)
  have other: "matchHere (Greedy SpaceClass # Q) (x # xs) False c = matchHere Q (x # xs) False c"
    if "\<not> isRegexSpace x" for x xs c
    using that by (subst matchHere.simps(5)) (simp del: matchHere.simps)
  have now: "\<exists>ws rest. u = ws @ r' @ rest \<and> list_all isRegexSpace ws \<and> closesWith cl rest"
    if h: "matchHere Q u False c = Some r'" for u c r'
  proof -
    obtain rest where "u = r' @ rest \<and> closesWith cl rest" using inner [OF h] by blast
    then have "u = [] @ r' @ rest \<and> list_all isRegexSpace [] \<and> closesWith cl rest" by simp
    then show ?thesis by blast
  qed
  have "matchHere (Greedy SpaceClass # Q) s False cap = Some r \<Longrightarrow>
      \<exists>ws rest. s = ws @ r @ rest \<and> list_all isRegexSpace ws \<and> closesWith cl rest"
  proof (induction s)
    case Nil
    then have "matchHere Q [] False cap = Some r" by (simp only: empty)
    then show ?case by (rule now)
  next
    case (Cons x xs)
    show ?case
    proof (cases "isRegexSpace x")
      case False
      with Cons.prems have "matchHere Q (x # xs) False cap = Some r"
        by (simp only: other [OF False])
      then show ?thesis by (rule now)
    next
      case True
      show ?thesis
      proof (cases "matchHere (Greedy SpaceClass # Q) xs False cap")
        case None
        with Cons.prems have "matchHere Q (x # xs) False cap = Some r"
          by (simp only: space [OF True] option.case)
        then show ?thesis by (rule now)
      next
        case (Some r')
        with Cons.prems have "r' = r" by (simp only: space [OF True] option.case option.inject)
        with Some obtain ws rest where
          "xs = ws @ r @ rest \<and> list_all isRegexSpace ws \<and> closesWith cl rest"
          using Cons.IH by blast
        with True have "x # xs = (x # ws) @ r @ rest \<and> list_all isRegexSpace (x # ws)
            \<and> closesWith cl rest" by simp
        then show ?thesis by blast
      qed
    qed
  qed
  with assms(3) show ?thesis by (simp only: Q_def)
qed

lemma str_match_Some:
  "str_match ns s = Some r \<Longrightarrow> \<exists>pre rest. s = pre @ rest \<and> matchHere ns rest False [] = Some r"
proof (induction s)
  case Nil
  then have m: "matchHere ns [] False [] = Some r" by simp
  show ?case by (rule exI [of _ "[]"], rule exI [of _ "[]"]) (simp add: m)
next
  case (Cons x xs)
  show ?case
  proof (cases "matchHere ns (x # xs) False []")
    case (Some cap)
    with Cons.prems have m: "matchHere ns (x # xs) False [] = Some r" by simp
    show ?thesis by (rule exI [of _ "[]"], rule exI [of _ "x # xs"]) (simp add: m)
  next
    case None
    with Cons.prems have "str_match ns xs = Some r" by simp
    then obtain pre rest where pr: "xs = pre @ rest" "matchHere ns rest False [] = Some r"
      using Cons.IH by blast
    show ?thesis by (rule exI [of _ "x # pre"], rule exI [of _ rest]) (simp add: pr)
  qed
qed

lemma capture_is_interior:
  assumes "str_match jsonRegex s = Some interior"
  shows "\<exists>pre ws1 ws2 post.
           s = pre @ ascii ''```json'' @ ws1 @ interior @ ws2 @ ascii ''```'' @ post
           \<and> list_all isRegexSpace ws1 \<and> list_all isRegexSpace ws2"
proof -
  define op where "op = ascii ''```json''"
  define cl where "cl = ascii ''```''"
  define T where "T = Greedy SpaceClass # GroupOpen # Lazy AnyClass # GroupClose
        # Greedy SpaceClass # map Lit cl"
  have facts: "cl \<noteq> []" "\<not> isRegexSpace (hd cl)"
    using fence_close_facts by (simp_all add: cl_def)
  have re: "jsonRegex = map Lit op @ T"
    by (simp add: jsonRegex_def op_def cl_def T_def)
  obtain pre rest where pre: "s = pre @ rest" and m: "matchHere jsonRegex rest False [] = Some interior"
    using str_match_Some [OF assms] by blast
  from m have c: "(if take (length op) rest = op
      then matchHere T (drop (length op) rest) False [] else None) = Some interior"
    by (simp only: re matchHere_lits if_False)
  have t: "take (length op) rest = op"
    using c by (cases "take (length op) rest = op") (simp_all only: if_True if_False option.simps)
  with c have "matchHere T (drop (length op) rest) False [] = Some interior"
    by (simp only: if_True simp_thms)
  then obtain ws1 tail where tail: "drop (length op) rest = ws1 @ interior @ tail"
      "list_all isRegexSpace ws1" "closesWith cl tail"
    using after_tag_capture [OF facts, of "drop (length op) rest" "[]" interior]
    unfolding T_def by blast
  obtain ws2 post where post: "tail = ws2 @ cl @ post" "list_all isRegexSpace ws2"
    using closesWith_split [OF tail(3)] by blast
  have "rest = op @ drop (length op) rest" using t append_take_drop_id [of "length op" rest] by simp
  with pre tail(1) post(1) have "s = pre @ op @ ws1 @ interior @ ws2 @ cl @ post" by simp
  with tail(2) post(2) show ?thesis unfolding op_def cl_def by blast
qed

section \<open>Structure of extractJson and analyzeResumeText\<close>

lemma parseOrNull_returns: "\<exists>v. tryCatch (JSON_parse s) (\<lambda>error. Return JNull) = Return v"
  by (cases "JSON_parse s") (simp_all add: tryCatch_def)

lemma extractJson_interior:
  "str_match jsonRegex str = Some interior \<Longrightarrow> interior \<noteq> [] \<Longrightarrow>
   extractJson str = tryCatch (JSON_parse interior) (\<lambda>error. Return JNull)"
  by (simp add: extractJson_def)

lemma extractJson_whole:
  "str_match jsonRegex str = None \<or> str_match jsonRegex str = Some [] \<Longrightarrow>
   extractJson str = tryCatch (JSON_parse str) (\<lambda>error. Return JNull)"
  by (auto simp: extractJson_def)

lemma extractJson_returns: "\<exists>v. extractJson str = Return v"
proof (cases "str_match jsonRegex str")
  case None
  then show ?thesis using extractJson_whole [of str] parseOrNull_returns [of str] by simp
next
  case (Some interior)
  show ?thesis
  proof (cases "interior = []")
    case True
    with Some show ?thesis using extractJson_whole [of str] parseOrNull_returns [of str] by simp
  next
    case False
    with Some show ?thesis
      using extractJson_interior [of str interior] parseOrNull_returns [of interior] by simp
  qed
qed

lemma analyzeResumeText_eq:
  "analyzeResumeText gen t =
     (tryCatch (andThen (gen (buildPrompt t)) extractJson) (\<lambda>error. Return JNull),
      [GenerateContent (buildPrompt t)])"
  by (simp add: analyzeResumeText_def Let_def)

lemma analyzeResumeText_throw:
  "gen (buildPrompt t) = Throw e \<Longrightarrow> fst (analyzeResumeText gen t) = Return JNull"
  by (simp add: analyzeResumeText_eq andThen_def tryCatch_def)

lemma analyzeResumeText_reply:
  "gen (buildPrompt t) = Return reply \<Longrightarrow> fst (analyzeResumeText gen t) = extractJson reply"
proof -
  assume g: "gen (buildPrompt t) = Return reply"
  obtain v where v: "extractJson reply = Return v" using extractJson_returns by blast
  show ?thesis by (simp add: analyzeResumeText_eq andThen_def tryCatch_def g v)
qed

lemma analyzeResumeText_returns: "\<exists>v. fst (analyzeResumeText gen t) = Return v"
proof (cases "gen (buildPrompt t)")
  case (Return reply)
  then show ?thesis using analyzeResumeText_reply [of gen t reply] extractJson_returns by simp
next
  case (Throw e)
  then show ?thesis using analyzeResumeText_throw [of gen t e] by simp
qed

lemma analyzeResumeText_pair:
  "fst (analyzeResumeText gen t) = Return v \<Longrightarrow>
   analyzeResumeText gen t = (Return v, [GenerateContent (buildPrompt t)])"
  by (simp add: analyzeResumeText_eq)

section \<open>Structure of the handlers\<close>

lemma toPromptText_string [simp]: "toPromptText toStr (JStr s) = Return s"
  by (simp add: toPromptText_def)

lemma textHandler_missing:
  "resumeText req = None \<or> (\<exists>x. resumeText req = Some x \<and> \<not> truthy x) \<Longrightarrow>
   analyzeTextHandler toStr gen req =
     (Return (errorResponse 400 ''Resume text is required''), [])"
  by (auto simp: analyzeTextHandler_def)

lemma textHandler_present:
  "resumeText req = Some x \<Longrightarrow> truthy x \<Longrightarrow> toPromptText toStr x = Return t \<Longrightarrow>
   fst (analyzeResumeText gen t) = Return v \<Longrightarrow>
   analyzeTextHandler toStr gen req =
     (Return (if truthy v then analysisResponse v
              else errorResponse 500 ''Failed to analyze resume from text.''),
      [GenerateContent (buildPrompt t)])"
  by (simp add: analyzeTextHandler_def analyzeResumeTextOf_def analyzeResumeText_pair)

lemma textHandler_conversion_throws:
  "resumeText req = Some x \<Longrightarrow> truthy x \<Longrightarrow> toPromptText toStr x = Throw e \<Longrightarrow>
   analyzeTextHandler toStr gen req = (Throw e, [])"
  by (simp add: analyzeTextHandler_def analyzeResumeTextOf_def)

lemma afterExtraction_empty:
  "afterExtraction gen [] =
     (Return (errorResponse 500 ''Failed to extract text from the file.''), [])"
  by (simp add: afterExtraction_def)

lemma afterExtraction_text:
  "text \<noteq> [] \<Longrightarrow> fst (analyzeResumeText gen text) = Return v \<Longrightarrow>
   afterExtraction gen text =
     (Return (if truthy v then analysisResponse v
              else errorResponse 500 ''Failed to analyze resume from file.''),
      [GenerateContent (buildPrompt text)])"
  by (simp add: afterExtraction_def analyzeResumeText_pair)

lemma fileHandler_nofile:
  "reqFile req = None \<Longrightarrow>
   analyzeFileHandler dec gen req = (Return (errorResponse 400 ''No file uploaded.''), [])"
  by (simp add: analyzeFileHandler_def)

lemma fileHandler_unsupported:
  "reqFile req = Some f \<Longrightarrow> mimetype f \<noteq> pdfMediaType \<Longrightarrow> mimetype f \<noteq> docxMediaType \<Longrightarrow>
   analyzeFileHandler dec gen req =
     (Return (errorResponse 400 ''Unsupported file type. Please upload a PDF or DOCX file.''), [])"
  by (simp add: analyzeFileHandler_def fileTryBlock_def tryCatch_def)

lemma fileHandler_decoder_throws:
  "reqFile req = Some f \<Longrightarrow> mimetype f = pdfMediaType \<or> mimetype f = docxMediaType \<Longrightarrow>
   decoded dec f = Throw e \<Longrightarrow>
   analyzeFileHandler dec gen req =
     (Return (errorResponse 500 ''An internal server error occurred.''), [decoderCall f])"
  by (auto simp: analyzeFileHandler_def fileTryBlock_def tryCatch_def decoded_def
      decoderCall_def split: if_splits)

lemma fileHandler_empty_text:
  "reqFile req = Some f \<Longrightarrow> mimetype f = pdfMediaType \<or> mimetype f = docxMediaType \<Longrightarrow>
   decoded dec f = Return [] \<Longrightarrow>
   analyzeFileHandler dec gen req =
     (Return (errorResponse 500 ''Failed to extract text from the file.''), [decoderCall f])"
  by (auto simp: analyzeFileHandler_def fileTryBlock_def tryCatch_def decoded_def
      decoderCall_def afterExtraction_empty split: if_splits)

lemma fileHandler_text:
  "reqFile req = Some f \<Longrightarrow> mimetype f = pdfMediaType \<or> mimetype f = docxMediaType \<Longrightarrow>
   decoded dec f = Return text \<Longrightarrow> text \<noteq> [] \<Longrightarrow>
   fst (analyzeResumeText gen text) = Return v \<Longrightarrow>
   analyzeFileHandler dec gen req =
     (Return (if truthy v then analysisResponse v
              else errorResponse 500 ''Failed to analyze resume from file.''),
      [decoderCall f, GenerateContent (buildPrompt text)])"
  by (auto simp: analyzeFileHandler_def fileTryBlock_def tryCatch_def decoded_def
      decoderCall_def afterExtraction_text split: if_splits)

section \<open>Responses and examples\<close>

lemma reply_eval:
  "str_match jsonRegex reply = None \<Longrightarrow> JSON_parse reply = Return v \<Longrightarrow>
   fst (analyzeResumeText (alwaysReplies reply) t) = Return v"
  using analyzeResumeText_reply [of "alwaysReplies reply" t reply] extractJson_whole [of reply]
  by (simp add: alwaysReplies_def tryCatch_def)

lemma status_errorResponse [simp]: "status (errorResponse c m) = c"
  by (simp add: errorResponse_def)

lemma status_analysisResponse [simp]: "status (analysisResponse v) = 200"
  by (simp add: analysisResponse_def)

lemma body_analysisResponse [simp]: "body (analysisResponse v) = AnalysisBody v"
  by (simp add: analysisResponse_def)

lemma analysis_not_error [simp]: "analysisResponse v \<noteq> errorResponse c m"
  by (simp add: analysisResponse_def errorResponse_def)

lemma error_not_analysis [simp]: "errorResponse c m \<noteq> analysisResponse v"
  by (simp add: analysisResponse_def errorResponse_def)

lemma mimetype_pdfUpload [simp]: "mimetype pdfUpload = pdfMediaType"
  by (simp add: pdfUpload_def)

lemma mimetype_docxUpload [simp]: "mimetype docxUpload = docxMediaType"
  by (simp add: docxUpload_def)

lemma mimetype_plainUpload [simp]: "mimetype plainUpload = ascii ''text/plain''"
  by (simp add: plainUpload_def)

lemma decoded_pdfUpload [simp]:
  "decoded \<lparr>pdf = p, extractRawText = d\<rparr> pdfUpload = p (buffer pdfUpload)"
  by (simp add: decoded_def)

lemma decoded_docxUpload [simp]:
  "decoded \<lparr>pdf = p, extractRawText = d\<rparr> docxUpload = d (buffer docxUpload)"
  using media_types_differ by (simp add: decoded_def)

lemma partial_not_wellformed: "\<not> isAnalysisResult (JObj [(ascii ''userSkills'', JArr [])])"
  by (simp add: isAnalysisResult_def hasField_def ascii_def cu_def)

lemma falsy_values:
  "(\<not> truthy v) = (v = JNull \<or> v = JBool False \<or> v = JNum 0 \<or> v = JStr [])"
  by (cases v) auto

section \<open>JSON Recovery\<close>

text \<open>
  Claim C6. \<open>extractJson\<close> on three inputs: the fenced text
  \<^verbatim>\<open>```json\n{"a":1}\n```\<close> gives the object \<open>{a: 1}\<close>; the bare text \<^verbatim>\<open>{"a":1}\<close>
  gives the object \<open>{a: 1}\<close>; the text \<^verbatim>\<open>not json\<close> gives \<open>null\<close>.
\<close>

theorem extractJson_examples:
  \<open>extractJson (ascii ''```json\<newline>{"a":1}\<newline>```'') = Return (JObj [(ascii ''a'', JNum 1)])
   \<and> extractJson (ascii ''{"a":1}'') = Return (JObj [(ascii ''a'', JNum 1)])
   \<and> extractJson (ascii ''not json'') = Return JNull\<close>
  by (simp add: extractJson_def match_fenced match_bare match_notjson parse_a1 parse_notjson
      tryCatch_def)

text \<open>
  Claim C10. When the input has a json-tagged fenced block whose captured interior is the
  empty string, \<open>extractJson\<close> goes on as when no block is found: it parses the whole
  input, and gives \<open>null\<close> when that parse fails.
\<close>

theorem empty_interior_falls_through:
  assumes "str_match jsonRegex str = Some []"
  shows "extractJson str = (case JSON_parse str of Return v \<Rightarrow> Return v | Throw e \<Rightarrow> Return JNull)"
  using assms extractJson_whole [of str] by (simp add: tryCatch_def)

text \<open>The input of the claim, \<^verbatim>\<open>```json\n```\<close>: the capture is empty and the result is \<open>null\<close>.\<close>

theorem empty_interior_falls_through_witness:
  \<open>str_match jsonRegex (ascii ''```json\<newline>```'') = Some []
   \<and> extractJson (ascii ''```json\<newline>```'') = Return JNull\<close>
  using empty_interior_falls_through [OF match_emptyfence]
  by (simp add: match_emptyfence parse_emptyfence)

text \<open>
  Claim C4, as amended. \<open>extractJson\<close> first looks for a json-tagged fenced block. If one
  is found and its interior is not empty, it parses the interior and returns the result.
  If none is found, or the interior is empty, it parses the whole string. Whichever parse
  is made, a failure gives \<open>null\<close>, and the function never throws. (What it means that a
  block is found, and what its interior is, is the content of \<open>fence_found_iff\<close> and
  \<open>capture_is_interior\<close>.)
\<close>

theorem extractJson_branches:
  "(\<forall>interior. str_match jsonRegex str = Some interior \<and> interior \<noteq> [] \<longrightarrow>
      extractJson str =
        (case JSON_parse interior of Return v \<Rightarrow> Return v | Throw e \<Rightarrow> Return JNull))
   \<and> (str_match jsonRegex str = None \<or> str_match jsonRegex str = Some [] \<longrightarrow>
      extractJson str =
        (case JSON_parse str of Return v \<Rightarrow> Return v | Throw e \<Rightarrow> Return JNull))
   \<and> (\<exists>v. extractJson str = Return v)"
  using extractJson_interior [of str] extractJson_whole [of str] extractJson_returns [of str]
  by (simp add: tryCatch_def)

text \<open>A fenced input with an interior, and an input without a fence.\<close>

theorem extractJson_branches_witness:
  \<open>str_match jsonRegex (ascii ''```json\<newline>{"a":1}\<newline>```'') = Some (ascii ''{"a":1}'')
   \<and> ascii ''{"a":1}'' \<noteq> []
   \<and> extractJson (ascii ''```json\<newline>{"a":1}\<newline>```'') = Return (JObj [(ascii ''a'', JNum 1)])
   \<and> str_match jsonRegex (ascii ''not json'') = None
   \<and> extractJson (ascii ''not json'') = Return JNull\<close>
  using extractJson_branches [of \<open>ascii ''```json\<newline>{"a":1}\<newline>```''\<close>]
    extractJson_branches [of \<open>ascii ''not json''\<close>]
  by (simp add: match_fenced match_notjson parse_a1 parse_notjson)

text \<open>
  The claim as it was written fails on the JSON text \<^verbatim>\<open>"```json```"\<close>, a string literal
  that holds an empty fenced block. A block is found, so the procedure of the
  specification parses its empty interior and gives \<open>null\<close>; \<open>extractJson\<close> parses the
  whole text and returns the string.
\<close>

theorem extractJson_differs_from_specified:
  \<open>str_match jsonRegex (ascii ''"```json```"'') = Some []
   \<and> recoverAsSpecified (ascii ''"```json```"'') = Return JNull
   \<and> extractJson (ascii ''"```json```"'') = Return (JStr (ascii ''```json```''))\<close>
  by (simp add: recoverAsSpecified_def extractJson_def match_quotedfence parse_quotedfence
      parse_empty tryCatch_def)

section \<open>POST /api/analyze-text\<close>

text \<open>
  Claim C2, as amended. If \<open>resumeText\<close> is missing or falsy (the empty string, \<open>null\<close>,
  \<open>false\<close> or 0), the response is 400 with the error "Resume text is required" and no
  call is made to the model. Otherwise the analyzer is called on the value, which the
  prompt takes as a string (a string as it is). When the value has such a string, the
  model is called once, on the prompt built from it, and the analyzer returns a value: if
  that value is falsy (\<open>null\<close>, and also \<open>false\<close>, 0 or the empty string) the response is
  500 with the error "Failed to analyze resume from text."; if it is truthy the response
  is 200 with \<open>{ analysis: value }\<close>.
\<close>

theorem analyzeText_responses:
  "(resumeText req = None \<or> (\<exists>x. resumeText req = Some x \<and> \<not> truthy x) \<longrightarrow>
      analyzeTextHandler toStr gen req =
        (Return (errorResponse 400 ''Resume text is required''), []))
   \<and> (\<forall>x t. resumeText req = Some x \<and> truthy x \<and> toPromptText toStr x = Return t \<longrightarrow>
        (\<exists>v. fst (analyzeResumeText gen t) = Return v
           \<and> analyzeTextHandler toStr gen req =
               (Return (if truthy v then analysisResponse v
                        else errorResponse 500 ''Failed to analyze resume from text.''),
                [GenerateContent (buildPrompt t)])))
   \<and> (\<forall>s. toPromptText toStr (JStr s) = Return s)
   \<and> (\<forall>x. (\<not> truthy x) = (x = JNull \<or> x = JBool False \<or> x = JNum 0 \<or> x = JStr []))"
proof (intro conjI allI impI)
  assume "resumeText req = None \<or> (\<exists>x. resumeText req = Some x \<and> \<not> truthy x)"
  then show "analyzeTextHandler toStr gen req =
      (Return (errorResponse 400 ''Resume text is required''), [])"
    by (rule textHandler_missing)
next
  fix x t
  assume h: "resumeText req = Some x \<and> truthy x \<and> toPromptText toStr x = Return t"
  obtain v where v: "fst (analyzeResumeText gen t) = Return v"
    using analyzeResumeText_returns by blast
  have "analyzeTextHandler toStr gen req =
      (Return (if truthy v then analysisResponse v
               else errorResponse 500 ''Failed to analyze resume from text.''),
       [GenerateContent (buildPrompt t)])"
    using h v textHandler_present [of req x toStr t gen v] by simp
  with v show "\<exists>v. fst (analyzeResumeText gen t) = Return v
           \<and> analyzeTextHandler toStr gen req =
               (Return (if truthy v then analysisResponse v
                        else errorResponse 500 ''Failed to analyze resume from text.''),
                [GenerateContent (buildPrompt t)])"
    by blast
next
  fix s
  show "toPromptText toStr (JStr s) = Return s" by simp
next
  fix x
  show "(\<not> truthy x) = (x = JNull \<or> x = JBool False \<or> x = JNum 0 \<or> x = JStr [])"
    by (rule falsy_values)
qed

text \<open>
  A request without the field, a request whose field is the number 0, a request whose
  field is a string and whose analysis is the number 7, and a request whose field is
  \<open>true\<close>, which the prompt takes as the string \<^verbatim>\<open>true\<close>.
\<close>

theorem analyzeText_responses_witness:
  \<open>analyzeTextHandler noToString (alwaysReplies (ascii ''7'')) \<lparr>resumeText = None\<rparr> =
     (Return (errorResponse 400 ''Resume text is required''), [])
   \<and> analyzeTextHandler noToString (alwaysReplies (ascii ''7'')) \<lparr>resumeText = Some (JNum 0)\<rparr> =
     (Return (errorResponse 400 ''Resume text is required''), [])
   \<and> analyzeTextHandler noToString (alwaysReplies (ascii ''7''))
        \<lparr>resumeText = Some (JStr (ascii ''resume''))\<rparr> =
     (Return (analysisResponse (JNum 7)), [GenerateContent (buildPrompt (ascii ''resume''))])
   \<and> analyzeTextHandler (toStringGiving (ascii ''true'')) (alwaysReplies (ascii ''7''))
        \<lparr>resumeText = Some (JBool True)\<rparr> =
     (Return (analysisResponse (JNum 7)), [GenerateContent (buildPrompt (ascii ''true''))])\<close>
  using
    analyzeText_responses [of "\<lparr>resumeText = None\<rparr>" noToString "alwaysReplies (ascii ''7'')"]
    analyzeText_responses [of "\<lparr>resumeText = Some (JNum 0)\<rparr>" noToString
      "alwaysReplies (ascii ''7'')"]
    analyzeText_responses [of "\<lparr>resumeText = Some (JStr (ascii ''resume''))\<rparr>" noToString
      "alwaysReplies (ascii ''7'')"]
    analyzeText_responses [of "\<lparr>resumeText = Some (JBool True)\<rparr>"
      "toStringGiving (ascii ''true'')" "alwaysReplies (ascii ''7'')"]
    reply_eval [OF match_seven parse_seven, of "ascii ''resume''"]
    reply_eval [OF match_seven parse_seven, of "ascii ''true''"]
  by (simp add: toPromptText_def toStringGiving_def)

text \<open>
  The claim as it was written fails on three requests. It sends every field other than a
  missing one and the empty string to the analyzer and promises a response: the field 0
  is answered 400. It gives 500 only for a \<open>null\<close> result and 200 for every other: when
  the model replies \<^verbatim>\<open>false\<close> the analyzer returns \<open>false\<close>, which is not \<open>null\<close>, and
  the response is 500. And when the field is the object \<^verbatim>\<open>{"toString":1}\<close>, which the
  language cannot convert to a string, the handler throws and sends no response.
\<close>

theorem analyzeText_as_written_fails:
  \<open>JNum 0 \<noteq> JStr []
   \<and> analyzeTextHandler noToString (alwaysReplies (ascii ''false''))
        \<lparr>resumeText = Some (JObj [(ascii ''toString'', JNum 1)])\<rparr> = (Throw TypeError, [])
   \<and> analyzeTextHandler noToString (alwaysReplies (ascii ''false'')) \<lparr>resumeText = Some (JNum 0)\<rparr> =
       (Return (errorResponse 400 ''Resume text is required''), [])
   \<and> fst (analyzeResumeText (alwaysReplies (ascii ''false'')) (ascii ''resume'')) = Return (JBool False)
   \<and> JBool False \<noteq> JNull
   \<and> fst (analyzeTextHandler noToString (alwaysReplies (ascii ''false''))
            \<lparr>resumeText = Some (JStr (ascii ''resume''))\<rparr>) =
       Return (errorResponse 500 ''Failed to analyze resume from text.'')
   \<and> fst (analyzeTextHandler noToString (alwaysReplies (ascii ''false''))
            \<lparr>resumeText = Some (JStr (ascii ''resume''))\<rparr>) \<noteq>
       Return (analysisResponse (JBool False))\<close>
  using reply_eval [OF match_false parse_false, of "ascii ''resume''"]
    textHandler_present [of "\<lparr>resumeText = Some (JStr (ascii ''resume''))\<rparr>"
      "JStr (ascii ''resume'')" noToString "ascii ''resume''"
      "alwaysReplies (ascii ''false'')" "JBool False"]
    textHandler_missing [of "\<lparr>resumeText = Some (JNum 0)\<rparr>" noToString
      "alwaysReplies (ascii ''false'')"]
    textHandler_conversion_throws [of "\<lparr>resumeText = Some (JObj [(ascii ''toString'', JNum 1)])\<rparr>"
      "JObj [(ascii ''toString'', JNum 1)]" noToString TypeError "alwaysReplies (ascii ''false'')"]
  by (simp add: toPromptText_def noToString_def)

section \<open>POST /api/analyze-file\<close>

text \<open>
  Claim C3, as amended. The response is that of the first branch that applies: no file,
  400 "No file uploaded."; a media type that is neither PDF nor DOCX, 400 "Unsupported
  file type. Please upload a PDF or DOCX file."; empty extracted text, 500 "Failed to
  extract text from the file."; a decoder that throws, 500 "An internal server error
  occurred."; a falsy analyzer result (\<open>null\<close>, and also \<open>false\<close>, 0 or the empty
  string), 500 "Failed to analyze resume from file."; otherwise 200 with
  \<open>{ analysis: value }\<close>.
\<close>

theorem analyzeFile_responses:
  "(reqFile req = None \<longrightarrow>
      analyzeFileHandler dec gen req = (Return (errorResponse 400 ''No file uploaded.''), []))
   \<and> (\<forall>f. reqFile req = Some f \<and> mimetype f \<noteq> pdfMediaType \<and> mimetype f \<noteq> docxMediaType \<longrightarrow>
        fst (analyzeFileHandler dec gen req) =
          Return (errorResponse 400 ''Unsupported file type. Please upload a PDF or DOCX file.''))
   \<and> (\<forall>f. reqFile req = Some f \<and> (mimetype f = pdfMediaType \<or> mimetype f = docxMediaType) \<longrightarrow>
        (decoded dec f = Return [] \<longrightarrow>
           fst (analyzeFileHandler dec gen req) =
             Return (errorResponse 500 ''Failed to extract text from the file.''))
      \<and> (\<forall>e. decoded dec f = Throw e \<longrightarrow>
           fst (analyzeFileHandler dec gen req) =
             Return (errorResponse 500 ''An internal server error occurred.''))
      \<and> (\<forall>text. decoded dec f = Return text \<and> text \<noteq> [] \<longrightarrow>
           (\<exists>v. fst (analyzeResumeText gen text) = Return v
              \<and> fst (analyzeFileHandler dec gen req) =
                  Return (if truthy v then analysisResponse v
                          else errorResponse 500 ''Failed to analyze resume from file.''))))"
proof (intro conjI allI impI)
  assume "reqFile req = None"
  then show "analyzeFileHandler dec gen req = (Return (errorResponse 400 ''No file uploaded.''), [])"
    by (rule fileHandler_nofile)
next
  fix f
  assume "reqFile req = Some f \<and> mimetype f \<noteq> pdfMediaType \<and> mimetype f \<noteq> docxMediaType"
  then show "fst (analyzeFileHandler dec gen req) =
      Return (errorResponse 400 ''Unsupported file type. Please upload a PDF or DOCX file.'')"
    using fileHandler_unsupported [of req f dec gen] by simp
next
  fix f
  assume "reqFile req = Some f \<and> (mimetype f = pdfMediaType \<or> mimetype f = docxMediaType)"
    and "decoded dec f = Return []"
  then show "fst (analyzeFileHandler dec gen req) =
      Return (errorResponse 500 ''Failed to extract text from the file.'')"
    using fileHandler_empty_text [of req f dec gen] by simp
next
  fix f e
  assume "reqFile req = Some f \<and> (mimetype f = pdfMediaType \<or> mimetype f = docxMediaType)"
    and "decoded dec f = Throw e"
  then show "fst (analyzeFileHandler dec gen req) =
      Return (errorResponse 500 ''An internal server error occurred.'')"
    using fileHandler_decoder_throws [of req f dec e gen] by simp
next
  fix f extracted
  assume f: "reqFile req = Some f \<and> (mimetype f = pdfMediaType \<or> mimetype f = docxMediaType)"
    and t: "decoded dec f = Return extracted \<and> extracted \<noteq> []"
  obtain v where v: "fst (analyzeResumeText gen extracted) = Return v"
    using analyzeResumeText_returns by blast
  have "fst (analyzeFileHandler dec gen req) =
      Return (if truthy v then analysisResponse v
              else errorResponse 500 ''Failed to analyze resume from file.'')"
    using f t v fileHandler_text [of req f dec extracted gen v] by simp
  with v show "\<exists>v. fst (analyzeResumeText gen extracted) = Return v
      \<and> fst (analyzeFileHandler dec gen req) =
          Return (if truthy v then analysisResponse v
                  else errorResponse 500 ''Failed to analyze resume from file.'')"
    by blast
qed

text \<open>
  One request for each of five branches.
\<close>

theorem analyzeFile_responses_witness:
  \<open>analyzeFileHandler \<lparr>pdf = decodeAs (ascii ''resume''), extractRawText = decodeFails\<rparr>
      (alwaysReplies (ascii ''7'')) \<lparr>reqFile = None\<rparr> =
     (Return (errorResponse 400 ''No file uploaded.''), [])
   \<and> fst (analyzeFileHandler \<lparr>pdf = decodeAs (ascii ''resume''), extractRawText = decodeFails\<rparr>
        (alwaysReplies (ascii ''7'')) \<lparr>reqFile = Some plainUpload\<rparr>) =
       Return (errorResponse 400 ''Unsupported file type. Please upload a PDF or DOCX file.'')
   \<and> fst (analyzeFileHandler \<lparr>pdf = decodeAs [], extractRawText = decodeFails\<rparr>
        (alwaysReplies (ascii ''7'')) \<lparr>reqFile = Some pdfUpload\<rparr>) =
       Return (errorResponse 500 ''Failed to extract text from the file.'')
   \<and> fst (analyzeFileHandler \<lparr>pdf = decodeAs (ascii ''resume''), extractRawText = decodeFails\<rparr>
        (alwaysReplies (ascii ''7'')) \<lparr>reqFile = Some docxUpload\<rparr>) =
       Return (errorResponse 500 ''An internal server error occurred.'')
   \<and> fst (analyzeFileHandler \<lparr>pdf = decodeAs (ascii ''resume''), extractRawText = decodeFails\<rparr>
        (alwaysReplies (ascii ''7'')) \<lparr>reqFile = Some pdfUpload\<rparr>) =
       Return (analysisResponse (JNum 7))\<close>
  using
    analyzeFile_responses [of "\<lparr>reqFile = None\<rparr>"
      "\<lparr>pdf = decodeAs (ascii ''resume''), extractRawText = decodeFails\<rparr>" "alwaysReplies (ascii ''7'')"]
    analyzeFile_responses [of "\<lparr>reqFile = Some plainUpload\<rparr>"
      "\<lparr>pdf = decodeAs (ascii ''resume''), extractRawText = decodeFails\<rparr>" "alwaysReplies (ascii ''7'')"]
    analyzeFile_responses [of "\<lparr>reqFile = Some pdfUpload\<rparr>"
      "\<lparr>pdf = decodeAs [], extractRawText = decodeFails\<rparr>" "alwaysReplies (ascii ''7'')"]
    analyzeFile_responses [of "\<lparr>reqFile = Some docxUpload\<rparr>"
      "\<lparr>pdf = decodeAs (ascii ''resume''), extractRawText = decodeFails\<rparr>" "alwaysReplies (ascii ''7'')"]
    analyzeFile_responses [of "\<lparr>reqFile = Some pdfUpload\<rparr>"
      "\<lparr>pdf = decodeAs (ascii ''resume''), extractRawText = decodeFails\<rparr>" "alwaysReplies (ascii ''7'')"]
    reply_eval [OF match_seven parse_seven, of "ascii ''resume''"]
    plain_not_pdf plain_not_docx
  by (simp add: decodeAs_def decodeFails_def)

text \<open>
  As the claim was written, only a \<open>null\<close> result gives 500 and every other result gives
  200. When the model replies \<^verbatim>\<open>0\<close> the analyzer returns the number 0, which is not
  \<open>null\<close>, and the response is 500.
\<close>

theorem analyzeFile_falsy_result_is_500:
  \<open>fst (analyzeResumeText (alwaysReplies (ascii ''0'')) (ascii ''resume'')) = Return (JNum 0)
   \<and> JNum 0 \<noteq> JNull
   \<and> fst (analyzeFileHandler \<lparr>pdf = decodeAs (ascii ''resume''), extractRawText = decodeFails\<rparr>
        (alwaysReplies (ascii ''0'')) \<lparr>reqFile = Some pdfUpload\<rparr>) =
       Return (errorResponse 500 ''Failed to analyze resume from file.'')
   \<and> fst (analyzeFileHandler \<lparr>pdf = decodeAs (ascii ''resume''), extractRawText = decodeFails\<rparr>
        (alwaysReplies (ascii ''0'')) \<lparr>reqFile = Some pdfUpload\<rparr>) \<noteq>
       Return (analysisResponse (JNum 0))\<close>
  using reply_eval [OF match_zero parse_zero, of "ascii ''resume''"]
    fileHandler_text [of "\<lparr>reqFile = Some pdfUpload\<rparr>" pdfUpload
      "\<lparr>pdf = decodeAs (ascii ''resume''), extractRawText = decodeFails\<rparr>" "ascii ''resume''"
      "alwaysReplies (ascii ''0'')" "JNum 0"]
  by (simp add: decodeAs_def)

text \<open>
  Claim C7. The decoder is chosen by the declared media type alone, whatever the bytes
  are. For the PDF type the handler calls the PDF decoder on the buffer and no other
  decoder, and the response is made from what that decoder gives: 500 "An internal server
  error occurred." when it throws, 500 "Failed to extract text from the file." when its
  text is empty, and otherwise the response to the analysis of its text. For the DOCX type
  the same holds with the DOCX raw-text decoder. For every other type the handler calls
  nothing and responds 400 with the unsupported-file-type message, without throwing.
\<close>

theorem decoder_chosen_by_media_type:
  assumes "reqFile req = Some f"
  shows "(mimetype f = pdfMediaType \<longrightarrow>
            (\<forall>e. pdf dec (buffer f) = Throw e \<longrightarrow>
               analyzeFileHandler dec gen req =
                 (Return (errorResponse 500 ''An internal server error occurred.''),
                  [PdfParse (buffer f)]))
          \<and> (pdf dec (buffer f) = Return [] \<longrightarrow>
               analyzeFileHandler dec gen req =
                 (Return (errorResponse 500 ''Failed to extract text from the file.''),
                  [PdfParse (buffer f)]))
          \<and> (\<forall>t v. pdf dec (buffer f) = Return t \<and> t \<noteq> []
                 \<and> fst (analyzeResumeText gen t) = Return v \<longrightarrow>
               analyzeFileHandler dec gen req =
                 (Return (if truthy v then analysisResponse v
                          else errorResponse 500 ''Failed to analyze resume from file.''),
                  [PdfParse (buffer f), GenerateContent (buildPrompt t)])))
    \<and> (mimetype f = docxMediaType \<longrightarrow>
            (\<forall>e. extractRawText dec (buffer f) = Throw e \<longrightarrow>
               analyzeFileHandler dec gen req =
                 (Return (errorResponse 500 ''An internal server error occurred.''),
                  [MammothExtractRawText (buffer f)]))
          \<and> (extractRawText dec (buffer f) = Return [] \<longrightarrow>
               analyzeFileHandler dec gen req =
                 (Return (errorResponse 500 ''Failed to extract text from the file.''),
                  [MammothExtractRawText (buffer f)]))
          \<and> (\<forall>t v. extractRawText dec (buffer f) = Return t \<and> t \<noteq> []
                 \<and> fst (analyzeResumeText gen t) = Return v \<longrightarrow>
               analyzeFileHandler dec gen req =
                 (Return (if truthy v then analysisResponse v
                          else errorResponse 500 ''Failed to analyze resume from file.''),
                  [MammothExtractRawText (buffer f), GenerateContent (buildPrompt t)])))
    \<and> (mimetype f \<noteq> pdfMediaType \<and> mimetype f \<noteq> docxMediaType \<longrightarrow>
            analyzeFileHandler dec gen req =
              (Return (errorResponse 400
                         ''Unsupported file type. Please upload a PDF or DOCX file.''), []))"
proof -
  have pdfCase: "decoded dec f = pdf dec (buffer f) \<and> decoderCall f = PdfParse (buffer f)"
    if "mimetype f = pdfMediaType"
    using that by (simp add: decoded_def decoderCall_def)
  have docxCase: "decoded dec f = extractRawText dec (buffer f)
      \<and> decoderCall f = MammothExtractRawText (buffer f)"
    if "mimetype f = docxMediaType"
    using that media_types_differ by (auto simp: decoded_def decoderCall_def)
  have thrown: "analyzeFileHandler dec gen req =
      (Return (errorResponse 500 ''An internal server error occurred.''), [decoderCall f])"
    if "mimetype f = pdfMediaType \<or> mimetype f = docxMediaType" and "decoded dec f = Throw e"
    for e
    using assms that by (rule fileHandler_decoder_throws)
  have empty: "analyzeFileHandler dec gen req =
      (Return (errorResponse 500 ''Failed to extract text from the file.''), [decoderCall f])"
    if "mimetype f = pdfMediaType \<or> mimetype f = docxMediaType" and "decoded dec f = Return []"
    using assms that by (rule fileHandler_empty_text)
  have analysed: "analyzeFileHandler dec gen req =
      (Return (if truthy v then analysisResponse v
               else errorResponse 500 ''Failed to analyze resume from file.''),
       [decoderCall f, GenerateContent (buildPrompt t)])"
    if "mimetype f = pdfMediaType \<or> mimetype f = docxMediaType" and "decoded dec f = Return t"
      and "t \<noteq> []" and "fst (analyzeResumeText gen t) = Return v"
    for t v
    using assms that by (rule fileHandler_text)
  have pdfPart: "(\<forall>e. pdf dec (buffer f) = Throw e \<longrightarrow>
               analyzeFileHandler dec gen req =
                 (Return (errorResponse 500 ''An internal server error occurred.''),
                  [PdfParse (buffer f)]))
          \<and> (pdf dec (buffer f) = Return [] \<longrightarrow>
               analyzeFileHandler dec gen req =
                 (Return (errorResponse 500 ''Failed to extract text from the file.''),
                  [PdfParse (buffer f)]))
          \<and> (\<forall>t v. pdf dec (buffer f) = Return t \<and> t \<noteq> []
                 \<and> fst (analyzeResumeText gen t) = Return v \<longrightarrow>
               analyzeFileHandler dec gen req =
                 (Return (if truthy v then analysisResponse v
                          else errorResponse 500 ''Failed to analyze resume from file.''),
                  [PdfParse (buffer f), GenerateContent (buildPrompt t)]))"
    if m: "mimetype f = pdfMediaType"
    using pdfCase [OF m] thrown empty analysed m by auto
  have docxPart: "(\<forall>e. extractRawText dec (buffer f) = Throw e \<longrightarrow>
               analyzeFileHandler dec gen req =
                 (Return (errorResponse 500 ''An internal server error occurred.''),
                  [MammothExtractRawText (buffer f)]))
          \<and> (extractRawText dec (buffer f) = Return [] \<longrightarrow>
               analyzeFileHandler dec gen req =
                 (Return (errorResponse 500 ''Failed to extract text from the file.''),
                  [MammothExtractRawText (buffer f)]))
          \<and> (\<forall>t v. extractRawText dec (buffer f) = Return t \<and> t \<noteq> []
                 \<and> fst (analyzeResumeText gen t) = Return v \<longrightarrow>
               analyzeFileHandler dec gen req =
                 (Return (if truthy v then analysisResponse v
                          else errorResponse 500 ''Failed to analyze resume from file.''),
                  [MammothExtractRawText (buffer f), GenerateContent (buildPrompt t)]))"
    if m: "mimetype f = docxMediaType"
    using docxCase [OF m] thrown empty analysed m by auto
  have other: "mimetype f \<noteq> pdfMediaType \<and> mimetype f \<noteq> docxMediaType \<longrightarrow>
            analyzeFileHandler dec gen req =
              (Return (errorResponse 400
                         ''Unsupported file type. Please upload a PDF or DOCX file.''), [])"
    using assms fileHandler_unsupported [of req f dec gen] by simp
  show ?thesis using pdfPart docxPart other by blast
qed

text \<open>
  The same four bytes declared as PDF, where the PDF decoder gives the text and the DOCX
  decoder would fail, and declared as \<^verbatim>\<open>text/plain\<close>; and a DOCX upload, where the DOCX
  decoder gives the text and the PDF decoder would fail.
\<close>

theorem decoder_chosen_by_media_type_witness:
  "buffer pdfUpload = buffer plainUpload
   \<and> analyzeFileHandler \<lparr>pdf = decodeAs (ascii ''resume''), extractRawText = decodeFails\<rparr>
        (alwaysReplies (ascii ''7'')) \<lparr>reqFile = Some pdfUpload\<rparr> =
       (Return (analysisResponse (JNum 7)),
        [PdfParse (buffer pdfUpload), GenerateContent (buildPrompt (ascii ''resume''))])
   \<and> analyzeFileHandler \<lparr>pdf = decodeFails, extractRawText = decodeAs (ascii ''resume'')\<rparr>
        (alwaysReplies (ascii ''7'')) \<lparr>reqFile = Some docxUpload\<rparr> =
       (Return (analysisResponse (JNum 7)),
        [MammothExtractRawText (buffer docxUpload),
         GenerateContent (buildPrompt (ascii ''resume''))])
   \<and> analyzeFileHandler \<lparr>pdf = decodeAs (ascii ''resume''), extractRawText = decodeFails\<rparr>
        (alwaysReplies (ascii ''7'')) \<lparr>reqFile = Some plainUpload\<rparr> =
       (Return (errorResponse 400 ''Unsupported file type. Please upload a PDF or DOCX file.''), [])"
  using
    decoder_chosen_by_media_type [of "\<lparr>reqFile = Some pdfUpload\<rparr>" pdfUpload
      "\<lparr>pdf = decodeAs (ascii ''resume''), extractRawText = decodeFails\<rparr>"
      "alwaysReplies (ascii ''7'')"]
    decoder_chosen_by_media_type [of "\<lparr>reqFile = Some docxUpload\<rparr>" docxUpload
      "\<lparr>pdf = decodeFails, extractRawText = decodeAs (ascii ''resume'')\<rparr>"
      "alwaysReplies (ascii ''7'')"]
    decoder_chosen_by_media_type [of "\<lparr>reqFile = Some plainUpload\<rparr>" plainUpload
      "\<lparr>pdf = decodeAs (ascii ''resume''), extractRawText = decodeFails\<rparr>"
      "alwaysReplies (ascii ''7'')"]
    reply_eval [OF match_seven parse_seven, of "ascii ''resume''"]
    plain_not_pdf plain_not_docx
  by (simp add: decodeAs_def pdfUpload_def plainUpload_def)

section \<open>Failures of the model and falsy replies\<close>

text \<open>
  Claim C5. When the call to the model throws, \<open>analyzeResumeText\<close> returns \<open>null\<close>
  and does not throw, for every text; the text route then responds 500 "Failed to analyze
  resume from text." and the file route responds 500 "Failed to analyze resume from
  file.". On the text route the text is what the prompt takes from the field of a request
  that passes the first test, the field itself when it is a string.
\<close>

theorem model_failure_gives_500:
  assumes "gen (buildPrompt t) = Throw e"
  shows "fst (analyzeResumeText gen t) = Return JNull
    \<and> (\<forall>toStr x. truthy x \<and> toPromptText toStr x = Return t \<longrightarrow>
         fst (analyzeTextHandler toStr gen \<lparr>resumeText = Some x\<rparr>) =
           Return (errorResponse 500 ''Failed to analyze resume from text.''))
    \<and> (\<forall>toStr. t \<noteq> [] \<longrightarrow>
         fst (analyzeTextHandler toStr gen \<lparr>resumeText = Some (JStr t)\<rparr>) =
           Return (errorResponse 500 ''Failed to analyze resume from text.''))
    \<and> (\<forall>dec f. (mimetype f = pdfMediaType \<or> mimetype f = docxMediaType)
           \<and> decoded dec f = Return t \<and> t \<noteq> [] \<longrightarrow>
         fst (analyzeFileHandler dec gen \<lparr>reqFile = Some f\<rparr>) =
           Return (errorResponse 500 ''Failed to analyze resume from file.''))"
proof -
  have null: "fst (analyzeResumeText gen t) = Return JNull"
    using assms by (rule analyzeResumeText_throw)
  have general: "fst (analyzeTextHandler toStr gen \<lparr>resumeText = Some x\<rparr>) =
           Return (errorResponse 500 ''Failed to analyze resume from text.'')"
    if "truthy x \<and> toPromptText toStr x = Return t" for toStr x
    using that null textHandler_present [of "\<lparr>resumeText = Some x\<rparr>" x toStr t gen JNull]
    by simp
  have string: "fst (analyzeTextHandler toStr gen \<lparr>resumeText = Some (JStr t)\<rparr>) =
           Return (errorResponse 500 ''Failed to analyze resume from text.'')"
    if "t \<noteq> []" for toStr
    using that general [of "JStr t" toStr] by simp
  have fileRoute: "fst (analyzeFileHandler dec gen \<lparr>reqFile = Some f\<rparr>) =
           Return (errorResponse 500 ''Failed to analyze resume from file.'')"
    if "(mimetype f = pdfMediaType \<or> mimetype f = docxMediaType)
           \<and> decoded dec f = Return t \<and> t \<noteq> []" for dec f
    using that null fileHandler_text [of "\<lparr>reqFile = Some f\<rparr>" f dec t gen JNull] by simp
  show ?thesis using null general string fileRoute by blast
qed

text \<open>
  A model that always fails, on the text route and on a DOCX upload.
\<close>

theorem model_failure_gives_500_witness:
  "alwaysFails (buildPrompt (ascii ''resume'')) = Throw CollaboratorError
   \<and> fst (analyzeResumeText alwaysFails (ascii ''resume'')) = Return JNull
   \<and> fst (analyzeTextHandler noToString alwaysFails \<lparr>resumeText = Some (JStr (ascii ''resume''))\<rparr>) =
       Return (errorResponse 500 ''Failed to analyze resume from text.'')
   \<and> fst (analyzeFileHandler \<lparr>pdf = decodeFails, extractRawText = decodeAs (ascii ''resume'')\<rparr>
        alwaysFails \<lparr>reqFile = Some docxUpload\<rparr>) =
       Return (errorResponse 500 ''Failed to analyze resume from file.'')"
proof -
  have h: "alwaysFails (buildPrompt (ascii ''resume'')) = Throw CollaboratorError"
    by (simp add: alwaysFails_def)
  show ?thesis
    using h model_failure_gives_500 [of alwaysFails "ascii ''resume''" CollaboratorError]
    by (simp add: decodeAs_def)
qed

text \<open>
  Claim C9. The falsy values are \<open>null\<close>, \<open>false\<close>, 0 and the empty string. When the
  value recovered from the reply is falsy, both routes respond 500 with their
  analysis-failure message, the same response as when the call to the model fails. When
  it is truthy, whatever its type, both routes respond 200 with \<open>{ analysis: value }\<close>.
  On the text route the text is what the prompt takes from the field of a request that
  passes the first test, the field itself when it is a string.
\<close>

theorem falsy_value_is_failure:
  assumes "gen (buildPrompt t) = Return reply" and "extractJson reply = Return v"
  shows "(\<not> truthy v) = (v = JNull \<or> v = JBool False \<or> v = JNum 0 \<or> v = JStr [])
    \<and> (\<forall>toStr x. truthy x \<and> toPromptText toStr x = Return t \<longrightarrow>
         fst (analyzeTextHandler toStr gen \<lparr>resumeText = Some x\<rparr>) =
           Return (if truthy v then analysisResponse v
                   else errorResponse 500 ''Failed to analyze resume from text.''))
    \<and> (\<forall>toStr. t \<noteq> [] \<longrightarrow>
         fst (analyzeTextHandler toStr gen \<lparr>resumeText = Some (JStr t)\<rparr>) =
           Return (if truthy v then analysisResponse v
                   else errorResponse 500 ''Failed to analyze resume from text.''))
    \<and> (\<forall>dec f. (mimetype f = pdfMediaType \<or> mimetype f = docxMediaType)
           \<and> decoded dec f = Return t \<and> t \<noteq> [] \<longrightarrow>
         fst (analyzeFileHandler dec gen \<lparr>reqFile = Some f\<rparr>) =
           Return (if truthy v then analysisResponse v
                   else errorResponse 500 ''Failed to analyze resume from file.''))
    \<and> (\<not> truthy v \<longrightarrow>
         (\<forall>failing e. failing (buildPrompt t) = Throw e \<longrightarrow>
            (\<forall>toStr x. truthy x \<and> toPromptText toStr x = Return t \<longrightarrow>
               analyzeTextHandler toStr gen \<lparr>resumeText = Some x\<rparr> =
                 analyzeTextHandler toStr failing \<lparr>resumeText = Some x\<rparr>)
          \<and> (\<forall>dec f. (mimetype f = pdfMediaType \<or> mimetype f = docxMediaType)
                 \<and> decoded dec f = Return t \<and> t \<noteq> [] \<longrightarrow>
               analyzeFileHandler dec gen \<lparr>reqFile = Some f\<rparr> =
                 analyzeFileHandler dec failing \<lparr>reqFile = Some f\<rparr>)))"
proof -
  have r: "fst (analyzeResumeText gen t) = Return v"
    using assms(1,2) analyzeResumeText_reply [of gen t reply] by simp
  have textPair: "analyzeTextHandler toStr g \<lparr>resumeText = Some x\<rparr> =
      (Return (if truthy w then analysisResponse w
               else errorResponse 500 ''Failed to analyze resume from text.''),
       [GenerateContent (buildPrompt t)])"
    if "fst (analyzeResumeText g t) = Return w" and "truthy x \<and> toPromptText toStr x = Return t"
    for toStr x g w
    using that textHandler_present [of "\<lparr>resumeText = Some x\<rparr>" x toStr t g w] by simp
  have filePair: "analyzeFileHandler dec g \<lparr>reqFile = Some f\<rparr> =
      (Return (if truthy w then analysisResponse w
               else errorResponse 500 ''Failed to analyze resume from file.''),
       [decoderCall f, GenerateContent (buildPrompt t)])"
    if "fst (analyzeResumeText g t) = Return w"
      and "(mimetype f = pdfMediaType \<or> mimetype f = docxMediaType)
           \<and> decoded dec f = Return t \<and> t \<noteq> []"
    for dec f g w
    using that fileHandler_text [of "\<lparr>reqFile = Some f\<rparr>" f dec t g w] by simp
  have textRoute: "fst (analyzeTextHandler toStr gen \<lparr>resumeText = Some x\<rparr>) =
           Return (if truthy v then analysisResponse v
                   else errorResponse 500 ''Failed to analyze resume from text.'')"
    if "truthy x \<and> toPromptText toStr x = Return t" for toStr x
    using textPair [OF r that] by simp
  have stringRoute: "fst (analyzeTextHandler toStr gen \<lparr>resumeText = Some (JStr t)\<rparr>) =
           Return (if truthy v then analysisResponse v
                   else errorResponse 500 ''Failed to analyze resume from text.'')"
    if "t \<noteq> []" for toStr
    using that textRoute [of "JStr t" toStr] by simp
  have fileRoute: "fst (analyzeFileHandler dec gen \<lparr>reqFile = Some f\<rparr>) =
           Return (if truthy v then analysisResponse v
                   else errorResponse 500 ''Failed to analyze resume from file.'')"
    if "(mimetype f = pdfMediaType \<or> mimetype f = docxMediaType)
           \<and> decoded dec f = Return t \<and> t \<noteq> []"
    for dec f
    using filePair [OF r that] by simp
  have same: "(\<forall>toStr x. truthy x \<and> toPromptText toStr x = Return t \<longrightarrow>
               analyzeTextHandler toStr gen \<lparr>resumeText = Some x\<rparr> =
                 analyzeTextHandler toStr failing \<lparr>resumeText = Some x\<rparr>)
          \<and> (\<forall>dec f. (mimetype f = pdfMediaType \<or> mimetype f = docxMediaType)
                 \<and> decoded dec f = Return t \<and> t \<noteq> [] \<longrightarrow>
               analyzeFileHandler dec gen \<lparr>reqFile = Some f\<rparr> =
                 analyzeFileHandler dec failing \<lparr>reqFile = Some f\<rparr>)"
    if falsy: "\<not> truthy v" and fail: "failing (buildPrompt t) = Throw e" for failing e
  proof -
    have n: "fst (analyzeResumeText failing t) = Return JNull"
      using fail by (rule analyzeResumeText_throw)
    have "analyzeTextHandler toStr gen \<lparr>resumeText = Some x\<rparr> =
        analyzeTextHandler toStr failing \<lparr>resumeText = Some x\<rparr>"
      if "truthy x \<and> toPromptText toStr x = Return t" for toStr x
      using textPair [OF r that] textPair [OF n that] falsy by simp
    moreover have "analyzeFileHandler dec gen \<lparr>reqFile = Some f\<rparr> =
        analyzeFileHandler dec failing \<lparr>reqFile = Some f\<rparr>"
      if "(mimetype f = pdfMediaType \<or> mimetype f = docxMediaType)
           \<and> decoded dec f = Return t \<and> t \<noteq> []"
      for dec f
      using filePair [OF r that] filePair [OF n that] falsy by simp
    ultimately show ?thesis by blast
  qed
  show ?thesis using falsy_values [of v] textRoute stringRoute fileRoute same by blast
qed

text \<open>
  The reply \<^verbatim>\<open>""\<close>, an empty string, and the reply \<^verbatim>\<open>7\<close>, on both routes.
\<close>

theorem falsy_value_is_failure_witness:
  \<open>fst (analyzeTextHandler noToString (alwaysReplies (ascii ''""''))
          \<lparr>resumeText = Some (JStr (ascii ''resume''))\<rparr>) =
       Return (errorResponse 500 ''Failed to analyze resume from text.'')
   \<and> fst (analyzeFileHandler \<lparr>pdf = decodeAs (ascii ''resume''), extractRawText = decodeFails\<rparr>
        (alwaysReplies (ascii ''""'')) \<lparr>reqFile = Some pdfUpload\<rparr>) =
       Return (errorResponse 500 ''Failed to analyze resume from file.'')
   \<and> fst (analyzeTextHandler noToString (alwaysReplies (ascii ''7''))
          \<lparr>resumeText = Some (JStr (ascii ''resume''))\<rparr>) =
       Return (analysisResponse (JNum 7))
   \<and> fst (analyzeFileHandler \<lparr>pdf = decodeAs (ascii ''resume''), extractRawText = decodeFails\<rparr>
        (alwaysReplies (ascii ''7'')) \<lparr>reqFile = Some pdfUpload\<rparr>) =
       Return (analysisResponse (JNum 7))\<close>
proof -
  have e1: \<open>extractJson (ascii ''""'') = Return (JStr [])\<close>
    using extractJson_whole [of \<open>ascii ''""''\<close>]
    by (simp add: match_emptystring parse_emptystring tryCatch_def)
  have e2: "extractJson (ascii ''7'') = Return (JNum 7)"
    using extractJson_whole [of "ascii ''7''"]
    by (simp add: match_seven parse_seven tryCatch_def)
  have g1: \<open>alwaysReplies (ascii ''""'') (buildPrompt (ascii ''resume'')) = Return (ascii ''""'')\<close>
    by (simp add: alwaysReplies_def)
  have g2: "alwaysReplies (ascii ''7'') (buildPrompt (ascii ''resume'')) = Return (ascii ''7'')"
    by (simp add: alwaysReplies_def)
  have ne: "ascii ''resume'' \<noteq> []" by simp
  show ?thesis
    using g1 e1 g2 e2 ne
      falsy_value_is_failure [of \<open>alwaysReplies (ascii ''""'')\<close> "ascii ''resume''"
        \<open>ascii ''""''\<close> "JStr []"]
      falsy_value_is_failure [of "alwaysReplies (ascii ''7'')" "ascii ''resume''"
        "ascii ''7''" "JNum 7"]
    by (simp add: decodeAs_def)
qed

section \<open>The analysis value of a 200 response\<close>

text \<open>
  Claim C1, as amended. On either route, the \<open>analysis\<close> value of a 200 response is the
  truthy value that \<open>extractJson\<close> recovers from the reply of the model to the prompt
  built from the text; so a reply whose recovered value is \<open>null\<close> or otherwise falsy
  never gives a 200 response. The shape of the value is not checked. On the text route
  the text is what the prompt takes from a truthy field of the body.
\<close>

theorem ok_response_carries_recovered_value:
  "(\<forall>r. fst (analyzeTextHandler toStr gen treq) = Return r \<and> status r = 200 \<longrightarrow>
      (\<exists>x t reply v. resumeText treq = Some x \<and> truthy x \<and> toPromptText toStr x = Return t
         \<and> gen (buildPrompt t) = Return reply
         \<and> extractJson reply = Return v \<and> truthy v \<and> body r = AnalysisBody v))
   \<and> (\<forall>r. fst (analyzeFileHandler dec gen freq) = Return r \<and> status r = 200 \<longrightarrow>
      (\<exists>f t reply v. reqFile freq = Some f
         \<and> (mimetype f = pdfMediaType \<or> mimetype f = docxMediaType)
         \<and> decoded dec f = Return t \<and> t \<noteq> [] \<and> gen (buildPrompt t) = Return reply
         \<and> extractJson reply = Return v \<and> truthy v \<and> body r = AnalysisBody v))"
proof (intro conjI allI impI)
  fix r
  assume ok: "fst (analyzeTextHandler toStr gen treq) = Return r \<and> status r = 200"
  show "\<exists>x t reply v. resumeText treq = Some x \<and> truthy x \<and> toPromptText toStr x = Return t
         \<and> gen (buildPrompt t) = Return reply
         \<and> extractJson reply = Return v \<and> truthy v \<and> body r = AnalysisBody v"
  proof (cases "resumeText treq = None \<or> (\<exists>x. resumeText treq = Some x \<and> \<not> truthy x)")
    case True
    then show ?thesis using ok textHandler_missing [of treq toStr gen] by auto
  next
    case False
    then obtain x where x: "resumeText treq = Some x" "truthy x" by auto
    show ?thesis
    proof (cases "toPromptText toStr x")
      case (Throw e)
      then show ?thesis using ok x textHandler_conversion_throws [of treq x toStr e gen] by simp
    next
      case conv: (Return t)
      show ?thesis
      proof (cases "gen (buildPrompt t)")
        case (Throw e)
        then show ?thesis
          using ok x conv analyzeResumeText_throw [of gen t e]
            textHandler_present [of treq x toStr t gen JNull] by auto
      next
        case (Return reply)
        obtain v where v: "extractJson reply = Return v" using extractJson_returns by blast
        have "fst (analyzeResumeText gen t) = Return v"
          using Return v analyzeResumeText_reply [of gen t reply] by simp
        then have "fst (analyzeTextHandler toStr gen treq) =
            Return (if truthy v then analysisResponse v
                    else errorResponse 500 ''Failed to analyze resume from text.'')"
          using x conv textHandler_present [of treq x toStr t gen v] by simp
        with ok have "truthy v \<and> body r = AnalysisBody v"
          by (cases "truthy v") auto
        with x conv Return v show ?thesis by blast
      qed
    qed
  qed
next
  fix r
  assume ok: "fst (analyzeFileHandler dec gen freq) = Return r \<and> status r = 200"
  show "\<exists>f t reply v. reqFile freq = Some f
         \<and> (mimetype f = pdfMediaType \<or> mimetype f = docxMediaType)
         \<and> decoded dec f = Return t \<and> t \<noteq> [] \<and> gen (buildPrompt t) = Return reply
         \<and> extractJson reply = Return v \<and> truthy v \<and> body r = AnalysisBody v"
  proof (cases "reqFile freq")
    case None
    then show ?thesis using ok fileHandler_nofile [of freq dec gen] by auto
  next
    case (Some f)
    show ?thesis
    proof (cases "mimetype f = pdfMediaType \<or> mimetype f = docxMediaType")
      case False
      then show ?thesis using ok Some fileHandler_unsupported [of freq f dec gen] by auto
    next
      case sup: True
      show ?thesis
      proof (cases "decoded dec f")
        case (Throw e)
        then show ?thesis
          using ok Some sup fileHandler_decoder_throws [of freq f dec e gen] by auto
      next
        case dt: (Return t)
        show ?thesis
        proof (cases "t = []")
          case True
          then show ?thesis
            using ok Some sup dt fileHandler_empty_text [of freq f dec gen] by auto
        next
          case ne: False
          show ?thesis
          proof (cases "gen (buildPrompt t)")
            case (Throw e)
            then show ?thesis
              using ok Some sup dt ne analyzeResumeText_throw [of gen t e]
                fileHandler_text [of freq f dec t gen JNull] by auto
          next
            case (Return reply)
            obtain v where v: "extractJson reply = Return v" using extractJson_returns by blast
            have "fst (analyzeResumeText gen t) = Return v"
              using Return v analyzeResumeText_reply [of gen t reply] by simp
            then have "fst (analyzeFileHandler dec gen freq) =
                Return (if truthy v then analysisResponse v
                        else errorResponse 500 ''Failed to analyze resume from file.'')"
              using Some sup dt ne fileHandler_text [of freq f dec t gen v] by simp
            with ok have "truthy v \<and> body r = AnalysisBody v"
              by (cases "truthy v") auto
            with Some sup dt ne Return v show ?thesis by blast
          qed
        qed
      qed
    qed
  qed
qed

text \<open>
  A reply that is the object \<open>{a: 1}\<close>, on the text route and on a PDF upload.
\<close>

theorem ok_response_carries_recovered_value_witness:
  \<open>fst (analyzeTextHandler noToString (alwaysReplies (ascii ''{"a":1}''))
          \<lparr>resumeText = Some (JStr (ascii ''resume''))\<rparr>) =
     Return (analysisResponse (JObj [(ascii ''a'', JNum 1)]))
   \<and> fst (analyzeFileHandler \<lparr>pdf = decodeAs (ascii ''resume''), extractRawText = decodeFails\<rparr>
        (alwaysReplies (ascii ''{"a":1}'')) \<lparr>reqFile = Some pdfUpload\<rparr>) =
     Return (analysisResponse (JObj [(ascii ''a'', JNum 1)]))
   \<and> status (analysisResponse (JObj [(ascii ''a'', JNum 1)])) = 200
   \<and> extractJson (ascii ''{"a":1}'') = Return (JObj [(ascii ''a'', JNum 1)])
   \<and> truthy (JObj [(ascii ''a'', JNum 1)])\<close>
proof -
  have a: \<open>fst (analyzeResumeText (alwaysReplies (ascii ''{"a":1}'')) (ascii ''resume'')) =
      Return (JObj [(ascii ''a'', JNum 1)])\<close>
    by (rule reply_eval [OF match_bare parse_a1])
  have h1: \<open>fst (analyzeTextHandler noToString (alwaysReplies (ascii ''{"a":1}''))
      \<lparr>resumeText = Some (JStr (ascii ''resume''))\<rparr>) =
     Return (analysisResponse (JObj [(ascii ''a'', JNum 1)]))\<close>
    using a textHandler_present [of "\<lparr>resumeText = Some (JStr (ascii ''resume''))\<rparr>"
        "JStr (ascii ''resume'')" noToString "ascii ''resume''"
        \<open>alwaysReplies (ascii ''{"a":1}'')\<close> "JObj [(ascii ''a'', JNum 1)]"]
    by simp
  have h2: \<open>fst (analyzeFileHandler \<lparr>pdf = decodeAs (ascii ''resume''), extractRawText = decodeFails\<rparr>
        (alwaysReplies (ascii ''{"a":1}'')) \<lparr>reqFile = Some pdfUpload\<rparr>) =
     Return (analysisResponse (JObj [(ascii ''a'', JNum 1)]))\<close>
    using a fileHandler_text [of "\<lparr>reqFile = Some pdfUpload\<rparr>" pdfUpload
        "\<lparr>pdf = decodeAs (ascii ''resume''), extractRawText = decodeFails\<rparr>" "ascii ''resume''"
        \<open>alwaysReplies (ascii ''{"a":1}'')\<close> "JObj [(ascii ''a'', JNum 1)]"]
    by (simp add: decodeAs_def)
  have s: "status (analysisResponse (JObj [(ascii ''a'', JNum 1)])) = 200" by simp
  from ok_response_carries_recovered_value
    [of noToString \<open>alwaysReplies (ascii ''{"a":1}'')\<close>
      "\<lparr>resumeText = Some (JStr (ascii ''resume''))\<rparr>"
      "\<lparr>pdf = decodeAs (ascii ''resume''), extractRawText = decodeFails\<rparr>"
      "\<lparr>reqFile = Some pdfUpload\<rparr>"] h1 h2 s
  show ?thesis by (auto simp: alwaysReplies_def)
qed

text \<open>
  As the claim was written, a value that is not a well-formed AnalysisResult is never
  returned. The reply \<^verbatim>\<open>{"userSkills":[]}\<close> has no \<open>jobSuggestions\<close>, and it is
  returned with status 200.
\<close>

theorem partial_result_returned:
  \<open>fst (analyzeTextHandler noToString (alwaysReplies (ascii ''{"userSkills":[]}''))
          \<lparr>resumeText = Some (JStr (ascii ''resume''))\<rparr>) =
     Return \<lparr>status = 200, body = AnalysisBody (JObj [(ascii ''userSkills'', JArr [])])\<rparr>
   \<and> \<not> isAnalysisResult (JObj [(ascii ''userSkills'', JArr [])])\<close>
  using reply_eval [OF match_partial parse_partial, of "ascii ''resume''"]
    textHandler_present [of "\<lparr>resumeText = Some (JStr (ascii ''resume''))\<rparr>"
      "JStr (ascii ''resume'')" noToString "ascii ''resume''"
      \<open>alwaysReplies (ascii ''{"userSkills":[]}'')\<close> "JObj [(ascii ''userSkills'', JArr [])]"]
    partial_not_wellformed
  by (simp add: analysisResponse_def)

section \<open>Startup configuration\<close>




end
